theory Spec2Isabelle
  imports Complex_Main "HOL-Library.Sublist"
begin

section \<open>Tables\<close>

text \<open>
  The two scripts (\<^verbatim>\<open>02_build_cohort.py\<close>, the cohort builder, and
  \<^verbatim>\<open>02_process_data.py\<close>, the processing script) work on pandas data frames read
  from SAS transport files. A cell is a float, the float NaN (pandas' missing value) or a
  text. Floats are modelled as exact rationals: no claim below depends on rounding.
  A transport file has numeric and character variables only, and the numeric ones load as
  float columns; arithmetic and order comparisons are only ever applied to those, where
  Python would raise on a text operand. The model gives NaN (arithmetic) and False
  (comparison) for a text operand instead of modelling that TypeError.
\<close>

datatype cell = NaN | Num rat | Str string

type_synonym row = "string \<Rightarrow> cell"

text \<open>
  A frame is its list of column labels and its rows, in index order (every frame here
  has the default range index). A row maps a column label to the cell; what a row holds
  outside the frame's columns is never read: every read goes through \<open>columns\<close> first,
  and concatenation and joins restrict a row to its frame's columns.
\<close>

record frame =
  columns :: "string list"
  rows :: "row list"

datatype py_error = KeyError string | MergeError | RepeatedLabel

definition empty_frame :: frame where
  \<comment> \<open>\<^verbatim>\<open>pd.DataFrame()\<close>\<close>
  "empty_frame = \<lparr>columns = [], rows = []\<rparr>"

definition is_empty :: "frame \<Rightarrow> bool" where
  \<comment> \<open>\<^verbatim>\<open>df.empty\<close>: some axis has length 0\<close>
  "is_empty df = (columns df = [] \<or> rows df = [])"

definition df_get :: "frame \<Rightarrow> string \<Rightarrow> cell \<Rightarrow> row \<Rightarrow> cell" where
  \<comment> \<open>\<^verbatim>\<open>df.get(col, default)\<close> read at one row: the column when the frame has it,
      else the default (a scalar, or a constant Series of the frame's length)\<close>
  "df_get df col dflt r = (if col \<in> set (columns df) then r col else dflt)"

definition assign :: "frame \<Rightarrow> string \<Rightarrow> (row \<Rightarrow> cell) \<Rightarrow> frame" where
  \<comment> \<open>\<^verbatim>\<open>df[col] = values\<close>: overwrite the column, or append it as the last one\<close>
  "assign df col f =
     \<lparr>columns = (if col \<in> set (columns df) then columns df else columns df @ [col]),
      rows = map (\<lambda>r. r(col := f r)) (rows df)\<rparr>"

definition isna :: "cell \<Rightarrow> bool" where
  "isna c = (c = NaN)"

definition fillna :: "cell \<Rightarrow> cell \<Rightarrow> cell" where
  \<comment> \<open>\<^verbatim>\<open>s.fillna(other)\<close> at one index\<close>
  "fillna c other = (if isna c then other else c)"

fun ge_num :: "cell \<Rightarrow> rat \<Rightarrow> bool" where
  \<comment> \<open>\<^verbatim>\<open>s >= k\<close>: any comparison with NaN is False\<close>
  "ge_num (Num x) k = (k \<le> x)"
| "ge_num _ k = False"

fun lt_num :: "cell \<Rightarrow> rat \<Rightarrow> bool" where
  "lt_num (Num x) k = (x < k)"
| "lt_num _ k = False"

fun le_num :: "cell \<Rightarrow> rat \<Rightarrow> bool" where
  "le_num (Num x) k = (x \<le> k)"
| "le_num _ k = False"

fun minus_cell :: "cell \<Rightarrow> cell \<Rightarrow> cell" where
  "minus_cell (Num a) (Num b) = Num (a - b)"
| "minus_cell _ _ = NaN"

fun div_cell :: "cell \<Rightarrow> rat \<Rightarrow> cell" where
  "div_cell (Num a) k = Num (a / k)"
| "div_cell _ k = NaN"

fun times_cell :: "cell \<Rightarrow> rat \<Rightarrow> cell" where
  "times_cell (Num a) k = Num (a * k)"
| "times_cell _ k = NaN"

definition astype_float :: "bool \<Rightarrow> cell" where
  \<comment> \<open>\<^verbatim>\<open>.astype(float)\<close> and \<^verbatim>\<open>.astype(int)\<close> of a boolean\<close>
  "astype_float b = Num (if b then 1 else 0)"

section \<open>LDL cholesterol\<close>

definition compute_ldl_friedewald :: "cell \<Rightarrow> cell \<Rightarrow> cell \<Rightarrow> cell" where
  \<comment> \<open>cohort builder, at one index of the three Series\<close>
  "compute_ldl_friedewald tchol hdl trigly =
     (let ldl = minus_cell (minus_cell tchol hdl) (div_cell trigly 5);
          ldl = (if ge_num trigly 400 then NaN else ldl);
          ldl = (if lt_num ldl 0 then NaN else ldl)
      in ldl)"

definition calculate_ldl :: "cell \<Rightarrow> cell \<Rightarrow> cell \<Rightarrow> cell option \<Rightarrow> cell" where
  \<comment> \<open>processing script, at one index; \<open>direct_ldl = None\<close> is the default argument\<close>
  "calculate_ldl tc hdl tg direct_ldl =
     (let ldl_calc = minus_cell (minus_cell tc hdl) (div_cell tg 5);
          ldl_calc = (if lt_num tg 400 then ldl_calc else NaN);
          ldl_calc = (case direct_ldl of None \<Rightarrow> ldl_calc | Some d \<Rightarrow> fillna ldl_calc d)
      in ldl_calc)"

section \<open>Clinical flags\<close>

definition define_cvd_history :: "frame \<Rightarrow> cell list" where
  \<comment> \<open>cohort builder: each source column defaults to the answer 2 (no) when absent\<close>
  "define_cvd_history df = map (\<lambda>r.
     let chd = df_get df ''MCQ160C'' (Num 2) r;
         mi = df_get df ''MCQ160E'' (Num 2) r;
         stroke = df_get df ''MCQ160F'' (Num 2) r;
         angina = df_get df ''MCQ160D'' (Num 2) r;
         chf = df_get df ''MCQ160B'' (Num 2) r
     in astype_float (chd = Num 1 \<or> mi = Num 1 \<or> stroke = Num 1 \<or> angina = Num 1 \<or> chf = Num 1))
     (rows df)"

definition cvd_sources :: "string list" where
  "cvd_sources = [''MCQ160C'', ''MCQ160E'', ''MCQ160F'', ''MCQ160D'', ''MCQ160B'']"

definition define_diabetes :: "frame \<Rightarrow> cell list" where
  \<comment> \<open>cohort builder\<close>
  "define_diabetes df = map (\<lambda>r.
     let hba1c = df_get df ''LBXGH'' NaN r;
         glucose = df_get df ''LBXGLU'' NaN r;
         told = df_get df ''DIQ010'' NaN r
     in astype_float (ge_num hba1c 6.5 \<or> ge_num glucose 126 \<or> told = Num 1))
     (rows df)"

definition harmonize_variables_diabetes :: "frame \<Rightarrow> py_error + cell list" where
  \<comment> \<open>processing script, the \<^verbatim>\<open>diabetes\<close> column of \<^verbatim>\<open>harmonize_variables\<close>:
      the flag, then the mask that sets it missing; selecting \<^verbatim>\<open>DIQ010\<close> for the mask
      raises when the frame has no such column\<close>
  "harmonize_variables_diabetes df =
     (if ''DIQ010'' \<notin> set (columns df) then Inl (KeyError ''DIQ010'')
      else Inr (map (\<lambda>r.
        let hba1c = df_get df ''LBXGH'' NaN r;
            fasting_glucose = df_get df ''LBXGLU'' NaN r;
            diabetes = astype_float
              (ge_num hba1c 6.5 \<or> ge_num fasting_glucose 126 \<or>
               df_get df ''DIQ010'' (Num 2) r = Num 1 \<or>
               df_get df ''DIQ050'' (Num 2) r = Num 1 \<or>
               df_get df ''DIQ070'' (Num 2) r = Num 1)
        in if isna hba1c \<and> isna fasting_glucose \<and> isna (r ''DIQ010'') then NaN else diabetes)
        (rows df)))"

section \<open>Text\<close>

text \<open>
  The transport files are decoded as Latin-1, so a character of a text cell is one byte.
  Python's \<^verbatim>\<open>str.lower\<close> on such a text maps \<open>A\<close>..\<open>Z\<close> and the accented capitals
  \<open>0xC0\<close>..\<open>0xDE\<close> (but not the multiplication sign \<open>0xD7\<close>) to the character 32
  places later and leaves every other character alone.
\<close>

definition lower_char :: "char \<Rightarrow> char" where
  "lower_char c = (let n = (of_char c :: nat) in
     if (65 \<le> n \<and> n \<le> 90) \<or> (192 \<le> n \<and> n \<le> 222 \<and> n \<noteq> 215)
     then (case c of Char b0 b1 b2 b3 b4 b5 b6 b7 \<Rightarrow> Char b0 b1 b2 b3 b4 True b6 b7)
     else c)"

definition lower :: "string \<Rightarrow> string" where
  "lower s = map lower_char s"

definition py_str :: "(rat \<Rightarrow> string) \<Rightarrow> cell \<Rightarrow> string" where
  \<comment> \<open>\<^verbatim>\<open>str(x)\<close>; the rendering of a float is a parameter\<close>
  "py_str fmt c = (case c of NaN \<Rightarrow> ''nan'' | Num x \<Rightarrow> fmt x | Str s \<Rightarrow> s)"

definition contains :: "string \<Rightarrow> string \<Rightarrow> bool" where
  \<comment> \<open>\<^verbatim>\<open>a in b\<close> on Python strings\<close>
  "contains a b = sublist a b"

section \<open>File resolver\<close>

text \<open>
  A cycle directory is the list of its entries in the order the directory scan yields
  them, each with the table \<^verbatim>\<open>load_xpt\<close> returns for it (the empty frame when the file
  cannot be read). \<^verbatim>\<open>Path.glob\<close> matches the entry names against a shell pattern,
  case-sensitively on a POSIX system. Of the pattern syntax, \<open>*\<close>, \<open>?\<close> and literal
  characters are modelled; no token of the scripts has a bracket expression.
\<close>

type_synonym cycle_dir = "(string \<times> frame) list"

datatype glob_tok = Lit char | AnyChar | Star

definition glob_parse :: "string \<Rightarrow> glob_tok list" where
  "glob_parse p = map (\<lambda>c. if c = CHR ''*'' then Star else if c = CHR ''?'' then AnyChar else Lit c) p"

fun glob_match :: "glob_tok list \<Rightarrow> string \<Rightarrow> bool" where
  "glob_match [] s = (s = [])"
| "glob_match (Star # p) [] = glob_match p []"
| "glob_match (Star # p) (c # s) = (glob_match p (c # s) \<or> glob_match (Star # p) s)"
| "glob_match (AnyChar # p) [] = False"
| "glob_match (AnyChar # p) (c # s) = glob_match p s"
| "glob_match (Lit d # p) [] = False"
| "glob_match (Lit d # p) (c # s) = (d = c \<and> glob_match p s)"

definition plain :: "string \<Rightarrow> bool" where
  \<comment> \<open>a token with no pattern character, as every token of the two scripts\<close>
  "plain tok = (CHR ''*'' \<notin> set tok \<and> CHR ''?'' \<notin> set tok)"

definition glob :: "string list \<Rightarrow> string \<Rightarrow> string list" where
  \<comment> \<open>\<^verbatim>\<open>list(cycle_dir.glob(pattern))\<close> on the entry names\<close>
  "glob entries pattern = filter (glob_match (glob_parse pattern)) entries"

definition find_file_bc :: "string list \<Rightarrow> string \<Rightarrow> string option" where
  \<comment> \<open>cohort builder\<close>
  "find_file_bc entries pattern =
     (case glob entries (''*'' @ pattern @ ''*'') of
        m # ms \<Rightarrow> Some m
      | [] \<Rightarrow> None)"

fun find_file_exts :: "string list \<Rightarrow> string \<Rightarrow> string list \<Rightarrow> string option" where
  \<comment> \<open>the loop over the extensions\<close>
  "find_file_exts entries pattern [] = None"
| "find_file_exts entries pattern (ext # exts) =
     (case glob entries (''*'' @ pattern @ ''*'' @ ext) of
        m # ms \<Rightarrow> Some m
      | [] \<Rightarrow> find_file_exts entries pattern exts)"

definition find_file_pd :: "string list \<Rightarrow> string \<Rightarrow> string option" where
  \<comment> \<open>processing script\<close>
  "find_file_pd entries pattern = find_file_exts entries pattern [''.XPT'', ''.xpt'']"

definition load_xpt :: "cycle_dir \<Rightarrow> string \<Rightarrow> frame" where
  "load_xpt d name = (case map_of d name of Some df \<Rightarrow> df | None \<Rightarrow> empty_frame)"

section \<open>Statin classifier\<close>

definition STATIN_PATTERNS :: "string list" where
  "STATIN_PATTERNS =
     [''atorvastatin'', ''fluvastatin'', ''lovastatin'', ''pitavastatin'', ''pravastatin'',
      ''rosuvastatin'', ''simvastatin'', ''vytorin'', ''advicor'', ''caduet'', ''liptruzet'']"

definition STATIN_CLASS_CODES :: "string list" where
  \<comment> \<open>defined by the cohort builder and used nowhere in it\<close>
  "STATIN_CLASS_CODES = [''CV350'', ''CV351'', ''CV352'', ''CV359'']"

definition STATIN_NAMES :: "string list" where
  "STATIN_NAMES =
     [''atorvastatin'', ''simvastatin'', ''rosuvastatin'', ''pravastatin'', ''lovastatin'',
      ''fluvastatin'', ''pitavastatin'',
      ''atorvastatin/amlodipine'', ''simvastatin/ezetimibe'', ''simvastatin/niacin'',
      ''atorvastatin/ezetimibe'', ''rosuvastatin/ezetimibe'', ''lovastatin/niacin'',
      ''lipitor'', ''zocor'', ''crestor'', ''pravachol'', ''mevacor'', ''lescol'', ''livalo'',
      ''vytorin'', ''caduet'', ''advicor'']"

definition STATIN_THERAPEUTIC_CLASSES :: "string list" where
  "STATIN_THERAPEUTIC_CLASSES = [''358'']"

fun dedup :: "'a list \<Rightarrow> 'a list" where
  \<comment> \<open>the distinct values, in order of first appearance (\<^verbatim>\<open>Series.unique\<close>)\<close>
  "dedup [] = []"
| "dedup (x # xs) = x # dedup (filter (\<lambda>y. y \<noteq> x) xs)"

text \<open>
  The cohort builder's classifier returns a Series indexed by participant, here the list
  of (participant, flag) pairs. \<^verbatim>\<open>groupby\<close> drops the rows whose key is NaN and sorts
  the groups by key; the order is not observable, the Series being read by key only.
  The regular expression is the alternation of the eleven literal patterns, so a search
  for it succeeds exactly when one of them occurs in the text.
\<close>

definition identify_statin_users_bc ::
  "(rat \<Rightarrow> string) \<Rightarrow> frame \<Rightarrow> py_error + (cell \<times> cell) list" where
  "identify_statin_users_bc fmt rx_df =
     (if is_empty rx_df then Inr []
      else case find (\<lambda>col. col \<in> set (columns rx_df)) [''RXDDRUG'', ''RXD240B'', ''RXDDRGID''] of
        None \<Rightarrow> Inr []
      | Some drug_col \<Rightarrow>
          if ''SEQN'' \<notin> set (columns rx_df) then Inl (KeyError ''SEQN'')
          else
            let is_statin = (\<lambda>r. list_ex (\<lambda>p. contains p (lower (py_str fmt (r drug_col))))
                                   STATIN_PATTERNS);
                keys = dedup (filter (\<lambda>k. \<not> isna k) (map (\<lambda>r. r ''SEQN'') (rows rx_df)))
            in Inr (map (\<lambda>k. (k, astype_float
                     (list_ex is_statin (filter (\<lambda>r. r ''SEQN'' = k) (rows rx_df))))) keys))"

text \<open>
  The processing script first rewrites the column labels in upper case. Variable names of
  a transport file are ASCII, where \<^verbatim>\<open>str.upper\<close> maps \<open>a\<close>..\<open>z\<close> to the character 32
  places earlier; the accented small letters \<open>0xE0\<close>..\<open>0xFE\<close> (but not the division sign
  \<open>0xF7\<close>) are mapped likewise.
\<close>

definition upper_char :: "char \<Rightarrow> char" where
  "upper_char c = (let n = (of_char c :: nat) in
     if (97 \<le> n \<and> n \<le> 122) \<or> (224 \<le> n \<and> n \<le> 254 \<and> n \<noteq> 247)
     then (case c of Char b0 b1 b2 b3 b4 b5 b6 b7 \<Rightarrow> Char b0 b1 b2 b3 b4 False b6 b7)
     else c)"

definition upper :: "string \<Rightarrow> string" where
  "upper s = map upper_char s"

definition upper_columns :: "frame \<Rightarrow> frame" where
  \<comment> \<open>\<^verbatim>\<open>df.columns = [c.upper() for c in df.columns]\<close>; a label is then read from the
      first column that carries it\<close>
  "upper_columns df =
     \<lparr>columns = map upper (columns df),
      rows = map (\<lambda>r c. case find (\<lambda>c0. upper c0 = c) (columns df) of
                           None \<Rightarrow> NaN | Some c0 \<Rightarrow> r c0) (rows df)\<rparr>"

definition name_match_pd :: "(rat \<Rightarrow> string) \<Rightarrow> frame \<Rightarrow> row \<Rightarrow> bool" where
  \<comment> \<open>method 1: some drug-name column of the row holds a statin name\<close>
  "name_match_pd fmt rxq_df r =
     list_ex (\<lambda>col. col \<in> set (columns rxq_df) \<and>
                list_ex (\<lambda>statin. contains statin (lower (py_str fmt (r col)))) STATIN_NAMES)
       [''RXDDRUG'', ''RXDRUG'']"

definition class_match_pd :: "(rat \<Rightarrow> string) \<Rightarrow> frame \<Rightarrow> row \<Rightarrow> bool" where
  \<comment> \<open>method 2: some class-code column of the row holds a statin class code\<close>
  "class_match_pd fmt rxq_df r =
     list_ex (\<lambda>col. col \<in> set (columns rxq_df) \<and>
                py_str fmt (r col) \<in> set STATIN_THERAPEUTIC_CLASSES)
       [''RXDDCI1A'', ''RXDDCI1B'', ''RXDDCI1C'', ''RXDDCI2A'', ''RXDDCI2B'', ''RXDDCI2C'']"

definition identify_statin_users_pd :: "(rat \<Rightarrow> string) \<Rightarrow> frame \<Rightarrow> frame" where
  \<comment> \<open>processing script: the set \<^verbatim>\<open>statin_users\<close> is filled by the two scans, then every
      distinct participant of the table is flagged by membership\<close>
  "identify_statin_users_pd fmt rxq_df0 =
     (if is_empty rxq_df0 \<or> ''SEQN'' \<notin> set (columns rxq_df0)
      then \<lparr>columns = [''SEQN'', ''statin_user''], rows = []\<rparr>
      else
        let rxq_df = upper_columns rxq_df0;
            statin_users =
              map (\<lambda>r. r ''SEQN'') (filter (name_match_pd fmt rxq_df) (rows rxq_df)) @
              map (\<lambda>r. r ''SEQN'') (filter (class_match_pd fmt rxq_df) (rows rxq_df));
            all_seqn = dedup (map (\<lambda>r. r ''SEQN'') (rows rxq_df))
        in \<lparr>columns = [''SEQN'', ''statin_user''],
            rows = map (\<lambda>k. (\<lambda>c. NaN)(''SEQN'' := k,
                                ''statin_user'' := astype_float (k \<in> set statin_users)))
                       all_seqn\<rparr>)"

section \<open>Joins and concatenation\<close>

definition restrict_row :: "string list \<Rightarrow> row \<Rightarrow> row" where
  "restrict_row cols r = (\<lambda>c. if c \<in> set cols then r c else NaN)"

definition select_cols :: "frame \<Rightarrow> string list \<Rightarrow> py_error + frame" where
  \<comment> \<open>\<^verbatim>\<open>df[cols]\<close> with a list of labels\<close>
  "select_cols df cols =
     (case find (\<lambda>c. c \<notin> set (columns df)) cols of
        Some c \<Rightarrow> Inl (KeyError c)
      | None \<Rightarrow> Inr \<lparr>columns = cols, rows = map (restrict_row cols) (rows df)\<rparr>)"

definition join_row :: "(string \<times> string) list \<Rightarrow> row \<Rightarrow> (string \<times> string) list \<Rightarrow> row \<Rightarrow> row" where
  \<comment> \<open>one row of a join; the two lists pair each label of the result with the label it
      had in the left or in the right frame\<close>
  "join_row lren l rren r =
     (\<lambda>c. case map_of lren c of
             Some c0 \<Rightarrow> l c0
           | None \<Rightarrow> (case map_of rren c of Some c0 \<Rightarrow> r c0 | None \<Rightarrow> NaN))"

definition join_rows ::
  "(string \<times> string) list \<Rightarrow> (string \<times> string) list \<Rightarrow> row list \<Rightarrow> row \<Rightarrow> row list" where
  \<comment> \<open>the rows a left join makes of one left row: one for each right row of the same
      key, in order, or a single one with missing values when there is none\<close>
  "join_rows lren rren rrows l =
     (case filter (\<lambda>r. r ''SEQN'' = l ''SEQN'') rrows of
        [] \<Rightarrow> [join_row lren l rren (\<lambda>c. NaN)]
      | m # ms \<Rightarrow> map (join_row lren l rren) (m # ms))"

text \<open>
  \<^verbatim>\<open>left.merge(right, on='SEQN', how='left', suffixes=(lsuffix, rsuffix))\<close>. The key must
  be a column of both frames. The right frame's key column is dropped; a label the two
  frames then share gets the suffixes. The labels of a frame are pairwise distinct, as in
  every transport file; pandas raises a \<^verbatim>\<open>MergeError\<close> when the suffixes make two labels
  of one side coincide. When a label of the left side coincides with one of the right side
  after the renaming, pandas returns a frame with that label twice, which no step of the
  scripts can read as a column; the model has no such frames and returns
  \<open>RepeatedLabel\<close>. The left rows keep their order. Keys that are both NaN match.
\<close>

definition left_labels :: "frame \<Rightarrow> frame \<Rightarrow> string \<Rightarrow> (string \<times> string) list" where
  \<comment> \<open>each label of the left frame, paired under the label it has in the result\<close>
  "left_labels left right lsuffix =
     map (\<lambda>c. (if c \<in> set (columns right) \<and> c \<noteq> ''SEQN'' then c @ lsuffix else c, c))
       (columns left)"

definition right_labels :: "frame \<Rightarrow> frame \<Rightarrow> string \<Rightarrow> (string \<times> string) list" where
  \<comment> \<open>each label of the right frame but the key, paired under the label it has in the
      result\<close>
  "right_labels left right rsuffix =
     map (\<lambda>c. (if c \<in> set (columns left) then c @ rsuffix else c, c))
       (filter (\<lambda>c. c \<noteq> ''SEQN'') (columns right))"

definition merge_left :: "frame \<Rightarrow> frame \<Rightarrow> string \<Rightarrow> string \<Rightarrow> py_error + frame" where
  "merge_left left right lsuffix rsuffix =
     (if ''SEQN'' \<in> set (columns left) \<and> ''SEQN'' \<in> set (columns right)
      then
        if distinct (map fst (left_labels left right lsuffix)) \<and>
           distinct (map fst (right_labels left right rsuffix))
        then
          if distinct (map fst (left_labels left right lsuffix) @
                       map fst (right_labels left right rsuffix))
          then Inr \<lparr>columns = map fst (left_labels left right lsuffix) @
                              map fst (right_labels left right rsuffix),
                    rows = concat (map (join_rows (left_labels left right lsuffix)
                                          (right_labels left right rsuffix) (rows right))
                                    (rows left))\<rparr>
          else Inl RepeatedLabel
        else Inl MergeError
      else Inl (KeyError ''SEQN''))"

definition seqn_rows :: "cell \<Rightarrow> row list \<Rightarrow> row list" where
  \<comment> \<open>the rows of one participant\<close>
  "seqn_rows s rs = filter (\<lambda>r. r ''SEQN'' = s) rs"

definition seqns :: "frame \<Rightarrow> cell list" where
  \<comment> \<open>the participant of each row\<close>
  "seqns df = map (\<lambda>r. r ''SEQN'') (rows df)"

definition concat_frames :: "frame list \<Rightarrow> frame" where
  \<comment> \<open>\<^verbatim>\<open>pd.concat(frames, ignore_index=True)\<close>: the union of the columns, a cell missing
      where the row's frame has no such column\<close>
  "concat_frames fs =
     \<lparr>columns = dedup (concat (map columns fs)),
      rows = concat (map (\<lambda>f. map (restrict_row (columns f)) (rows f)) fs)\<rparr>"

section \<open>Per-cycle merger of the cohort builder\<close>

definition components_bc :: "string list" where
  "components_bc =
     [''CRP'', ''HSCRP'', ''TCHOL'', ''HDL'', ''TRIGLY'', ''FASTQX'', ''BMX'', ''BPX'', ''BPXO'',
      ''BPQ'', ''DIQ'', ''GHB'', ''GLU'', ''SMQ'', ''MCQ'']"

fun merge_components :: "cycle_dir \<Rightarrow> frame \<Rightarrow> string list \<Rightarrow> py_error + frame" where
  \<comment> \<open>the loop over the component files\<close>
  "merge_components d df [] = Inr df"
| "merge_components d df (pattern # ps) =
     (case find_file_bc (map fst d) pattern of
        None \<Rightarrow> merge_components d df ps
      | Some file_path \<Rightarrow>
          (if ''SEQN'' \<in> set (columns (load_xpt d file_path)) \<and> length (rows (load_xpt d file_path)) > 0
           then (case merge_left df (load_xpt d file_path) [] (''_'' @ pattern) of
                   Inl e \<Rightarrow> Inl e
                 | Inr df' \<Rightarrow> merge_components d df' ps)
           else merge_components d df ps))"

definition lookup_statin :: "(cell \<times> cell) list \<Rightarrow> cell \<Rightarrow> cell" where
  \<comment> \<open>\<^verbatim>\<open>Series.map(statin_users)\<close> at one value: NaN for a key the Series lacks\<close>
  "lookup_statin statin_users k = (case map_of statin_users k of Some v \<Rightarrow> v | None \<Rightarrow> NaN)"

definition process_cycle_statin_bc :: "(rat \<Rightarrow> string) \<Rightarrow> cycle_dir \<Rightarrow> frame \<Rightarrow> py_error + frame" where
  "process_cycle_statin_bc fmt d df =
     (case find_file_bc (map fst d) ''RXQ_RX'' of
        Some rx_file \<Rightarrow>
          (case identify_statin_users_bc fmt (load_xpt d rx_file) of
             Inl e \<Rightarrow> Inl e
           | Inr statin_users \<Rightarrow>
               if ''SEQN'' \<notin> set (columns df) then Inl (KeyError ''SEQN'')
               else Inr (assign df ''statin_use''
                           (\<lambda>r. fillna (lookup_statin statin_users (r ''SEQN'')) (Num 0))))
      | None \<Rightarrow> Inr (assign df ''statin_use'' (\<lambda>r. Num 0)))"

definition harmonize_cycle :: "frame \<Rightarrow> frame" where
  \<comment> \<open>the renamings at the end of \<^verbatim>\<open>process_cycle\<close>; the first converts mg/dL to mg/L\<close>
  "harmonize_cycle df0 =
     (let df1 = (if ''LBXCRP'' \<in> set (columns df0) \<and> ''LBXHSCRP'' \<notin> set (columns df0)
                 then assign df0 ''LBXHSCRP'' (\<lambda>r. times_cell (r ''LBXCRP'') 10) else df0);
          df2 = (if ''WTSAFPRP'' \<in> set (columns df1) \<and> ''WTSAF2YR'' \<notin> set (columns df1)
                 then assign df1 ''WTSAF2YR'' (\<lambda>r. r ''WTSAFPRP'') else df1);
          df3 = (if ''WTMECPRP'' \<in> set (columns df2) \<and> ''WTMEC2YR'' \<notin> set (columns df2)
                 then assign df2 ''WTMEC2YR'' (\<lambda>r. r ''WTMECPRP'') else df2);
          df4 = (if ''LBXHDD'' \<in> set (columns df3) \<and> ''LBDHDD'' \<notin> set (columns df3)
                 then assign df3 ''LBDHDD'' (\<lambda>r. r ''LBXHDD'') else df3)
      in df4)"

definition process_cycle_bc ::
  "(rat \<Rightarrow> string) \<Rightarrow> string \<Rightarrow> cycle_dir option \<Rightarrow> py_error + frame" where
  \<comment> \<open>\<open>None\<close> is a cycle directory that does not exist; the boolean column
      \<^verbatim>\<open>is_prepandemic\<close> is stored as 1 or 0\<close>
  "process_cycle_bc fmt cycle cycle_dir =
     (case cycle_dir of
        None \<Rightarrow> Inr empty_frame
      | Some d \<Rightarrow>
          (case find_file_bc (map fst d) ''DEMO'' of
             None \<Rightarrow> Inr empty_frame
           | Some demo_file \<Rightarrow>
               (case merge_components d (load_xpt d demo_file) components_bc of
                  Inl e \<Rightarrow> Inl e
                | Inr df \<Rightarrow>
                    (case process_cycle_statin_bc fmt d df of
                       Inl e \<Rightarrow> Inl e
                     | Inr df' \<Rightarrow>
                         Inr (harmonize_cycle
                               (assign (assign df' ''cycle'' (\<lambda>r. Str cycle))
                                  ''is_prepandemic'' (\<lambda>r. astype_float (contains ''2017'' cycle))))))))"

definition combine_cycles_bc :: "frame list \<Rightarrow> frame option" where
  \<comment> \<open>\<^verbatim>\<open>main\<close>: the cycles with at least one row are concatenated; \<open>None\<close> when there
      is none (the run stops)\<close>
  "combine_cycles_bc dfs =
     (let all_data = filter (\<lambda>df. length (rows df) > 0) dfs
      in if all_data = [] then None else Some (concat_frames all_data))"

definition build_analytic_cohort_race_eth :: "frame \<Rightarrow> cell list" where
  \<comment> \<open>the \<^verbatim>\<open>race_eth\<close> column of \<^verbatim>\<open>build_analytic_cohort\<close>\<close>
  "build_analytic_cohort_race_eth df =
     map (\<lambda>r. if ''RIDRETH3'' \<in> set (columns df) then r ''RIDRETH3''
               else df_get df ''RIDRETH1'' NaN r) (rows df)"

definition build_analytic_cohort_hscrp :: "frame \<Rightarrow> cell list" where
  \<comment> \<open>the \<^verbatim>\<open>hscrp\<close> column of \<^verbatim>\<open>build_analytic_cohort\<close>\<close>
  "build_analytic_cohort_hscrp df = map (df_get df ''LBXHSCRP'' NaN) (rows df)"

section \<open>Per-cycle merger and harmonizer of the processing script\<close>

definition lab_files :: "(string \<times> string list) list" where
  "lab_files =
     [(''TCHOL'', [''LBXTC'']),
      (''HDL'', [''LBDHDD'', ''LBXHDD'']),
      (''TRIGLY'', [''LBXTR'', ''WTSAF2YR'', ''WTSAFPRP'']),
      (''GHB'', [''LBXGH'']),
      (''GLU'', [''LBXGLU''])]"

definition demo_cols :: "string list" where
  "demo_cols =
     [''SEQN'', ''RIDAGEYR'', ''RIAGENDR'', ''RIDRETH1'', ''RIDRETH3'', ''DMDEDUC2'', ''INDFMPIR'',
      ''WTMEC2YR'', ''WTINT2YR'', ''SDMVPSU'', ''SDMVSTRA'']"

definition process_cycle_demo_pd :: "cycle_dir \<Rightarrow> frame option" where
  \<comment> \<open>the demographics table the other tables are joined onto; \<open>None\<close> where
      \<^verbatim>\<open>process_cycle\<close> returns an empty frame at once\<close>
  "process_cycle_demo_pd d =
     (case find_file_pd (map fst d) ''DEMO'' of
        None \<Rightarrow> None
      | Some demo_file \<Rightarrow>
          if is_empty (load_xpt d demo_file) then None
          else
            let df0 = upper_columns (load_xpt d demo_file);
                df1 = (if ''WTMECPRP'' \<in> set (columns df0)
                       then assign df0 ''WTMEC2YR'' (\<lambda>r. r ''WTMECPRP'') else df0);
                df2 = (if ''WTINTPRP'' \<in> set (columns df1)
                       then assign df1 ''WTINT2YR'' (\<lambda>r. r ''WTINTPRP'') else df1);
                keep = filter (\<lambda>c. c \<in> set (columns df2)) demo_cols
            in Some \<lparr>columns = keep, rows = map (restrict_row keep) (rows df2)\<rparr>)"

fun process_cycle_labs_pd ::
  "cycle_dir \<Rightarrow> frame \<Rightarrow> (string \<times> string list) list \<Rightarrow> py_error + frame" where
  \<comment> \<open>the loop over the laboratory files\<close>
  "process_cycle_labs_pd d df [] = Inr df"
| "process_cycle_labs_pd d df ((file_base, var_names) # rest) =
     (case find_file_pd (map fst d) file_base of
        None \<Rightarrow> process_cycle_labs_pd d df rest
      | Some lab_file \<Rightarrow>
          (if is_empty (load_xpt d lab_file) then process_cycle_labs_pd d df rest
           else if length (''SEQN'' # filter (\<lambda>v. v \<in> set (columns (upper_columns (load_xpt d lab_file)))) var_names) > 1
           then (case select_cols (upper_columns (load_xpt d lab_file))
                        (''SEQN'' # filter (\<lambda>v. v \<in> set (columns (upper_columns (load_xpt d lab_file)))) var_names) of
                   Inl e \<Rightarrow> Inl e
                 | Inr sel \<Rightarrow>
                     (case merge_left df sel ''_x'' ''_y'' of
                        Inl e \<Rightarrow> Inl e
                      | Inr df' \<Rightarrow> process_cycle_labs_pd d df' rest))
           else process_cycle_labs_pd d df rest))"

fun process_cycle_crp_pd ::
  "cycle_dir \<Rightarrow> frame \<Rightarrow> bool \<Rightarrow> string list \<Rightarrow> py_error + frame" where
  \<comment> \<open>the loop that loads the inflammation marker; the boolean is \<^verbatim>\<open>crp_loaded\<close>\<close>
  "process_cycle_crp_pd d df crp_loaded [] = Inr df"
| "process_cycle_crp_pd d df crp_loaded (pattern # ps) =
     (case find_file_pd (map fst d) pattern of
        None \<Rightarrow> process_cycle_crp_pd d df crp_loaded ps
      | Some crp_file \<Rightarrow>
          (if crp_loaded \<or> is_empty (load_xpt d crp_file)
           then process_cycle_crp_pd d df crp_loaded ps
           else if filter (\<lambda>v. v \<in> set (columns (upper_columns (load_xpt d crp_file))))
                     [''LBXHSCRP'', ''LBXCRP''] = []
           then process_cycle_crp_pd d df crp_loaded ps
           else (case select_cols (upper_columns (load_xpt d crp_file))
                        (''SEQN'' # filter (\<lambda>v. v \<in> set (columns (upper_columns (load_xpt d crp_file))))
                                      [''LBXHSCRP'', ''LBXCRP'']) of
                   Inl e \<Rightarrow> Inl e
                 | Inr sel \<Rightarrow>
                     (case merge_left df sel ''_x'' ''_y'' of
                        Inl e \<Rightarrow> Inl e
                      | Inr df' \<Rightarrow> process_cycle_crp_pd d df' True ps))))"

definition process_cycle_statin_pd :: "(rat \<Rightarrow> string) \<Rightarrow> cycle_dir \<Rightarrow> frame \<Rightarrow> py_error + frame" where
  "process_cycle_statin_pd fmt d df =
     (case find_file_pd (map fst d) ''RXQ_RX'' of
        Some rxq_file \<Rightarrow>
          (if is_empty (load_xpt d rxq_file) then Inr df
           else if is_empty (identify_statin_users_pd fmt (load_xpt d rxq_file)) then Inr df
           else (case merge_left df (identify_statin_users_pd fmt (load_xpt d rxq_file)) ''_x'' ''_y'' of
                   Inl e \<Rightarrow> Inl e
                 | Inr df' \<Rightarrow>
                     if ''statin_user'' \<notin> set (columns df') then Inl (KeyError ''statin_user'')
                     else Inr (assign df' ''statin_user'' (\<lambda>r. fillna (r ''statin_user'') (Num 0)))))
      | None \<Rightarrow> Inr (assign df ''statin_user'' (\<lambda>r. Num 0)))"

definition merge_file_pd :: "cycle_dir \<Rightarrow> frame \<Rightarrow> string option \<Rightarrow> string list \<Rightarrow> py_error + frame" where
  \<comment> \<open>the step shared by the examination and questionnaire files: when the file is found
      and loads, the columns of the list it has are joined onto the table\<close>
  "merge_file_pd d df file cols =
     (case file of
        None \<Rightarrow> Inr df
      | Some name \<Rightarrow>
          if is_empty (load_xpt d name) then Inr df
          else (case select_cols (upper_columns (load_xpt d name))
                       (filter (\<lambda>c. c \<in> set (columns (upper_columns (load_xpt d name)))) cols) of
                  Inl e \<Rightarrow> Inl e
                | Inr sel \<Rightarrow> merge_left df sel ''_x'' ''_y''))"

definition and_then :: "py_error + frame \<Rightarrow> (frame \<Rightarrow> py_error + frame) \<Rightarrow> py_error + frame" where
  \<comment> \<open>the next statement runs unless the previous one raised\<close>
  "and_then r f = (case r of Inl e \<Rightarrow> Inl e | Inr df \<Rightarrow> f df)"

definition process_cycle_pd ::
  "(rat \<Rightarrow> string) \<Rightarrow> string \<Rightarrow> cycle_dir option \<Rightarrow> py_error + frame" where
  \<comment> \<open>\<open>None\<close> is a cycle directory that does not exist\<close>
  "process_cycle_pd fmt cycle cycle_dir =
     (case cycle_dir of
        None \<Rightarrow> Inr empty_frame
      | Some d \<Rightarrow>
          (case process_cycle_demo_pd d of
             None \<Rightarrow> Inr empty_frame
           | Some df \<Rightarrow>
               and_then (process_cycle_labs_pd d df lab_files) (\<lambda>df.
               and_then (process_cycle_crp_pd d df False [''HSCRP'', ''CRP'']) (\<lambda>df.
               and_then (merge_file_pd d df (find_file_pd (map fst d) ''BMX'')
                           [''SEQN'', ''BMXBMI'', ''BMXWT'', ''BMXHT'']) (\<lambda>df.
               and_then (merge_file_pd d df
                           (case find_file_pd (map fst d) ''BPX'' of
                              Some bp_file \<Rightarrow> Some bp_file
                            | None \<Rightarrow> find_file_pd (map fst d) ''BPXO'')
                           [''SEQN'', ''BPXSY1'', ''BPXSY2'', ''BPXSY3'',
                            ''BPXDI1'', ''BPXDI2'', ''BPXDI3'',
                            ''BPXOSY1'', ''BPXOSY2'', ''BPXOSY3'',
                            ''BPXODI1'', ''BPXODI2'', ''BPXODI3'']) (\<lambda>df.
               and_then (merge_file_pd d df (find_file_pd (map fst d) ''DIQ'')
                           [''SEQN'', ''DIQ010'', ''DIQ050'', ''DIQ070'']) (\<lambda>df.
               and_then (merge_file_pd d df (find_file_pd (map fst d) ''BPQ'')
                           [''SEQN'', ''BPQ020'', ''BPQ040A'']) (\<lambda>df.
               and_then (merge_file_pd d df (find_file_pd (map fst d) ''SMQ'')
                           [''SEQN'', ''SMQ020'', ''SMQ040'']) (\<lambda>df.
               and_then (process_cycle_statin_pd fmt d df) (\<lambda>df.
               Inr (assign df ''cycle'' (\<lambda>r. Str cycle))))))))))))"

definition combine_cycles_pd :: "frame list \<Rightarrow> frame option" where
  "combine_cycles_pd dfs =
     (let all_data = filter (\<lambda>df. \<not> is_empty df) dfs
      in if all_data = [] then None else Some (concat_frames all_data))"

definition harmonize_variables_hscrp :: "frame \<Rightarrow> cell list" where
  \<comment> \<open>the \<^verbatim>\<open>hscrp\<close> column of \<^verbatim>\<open>harmonize_variables\<close>\<close>
  "harmonize_variables_hscrp df =
     map (\<lambda>r. fillna (df_get df ''LBXHSCRP'' NaN r) (df_get df ''LBXCRP'' NaN r)) (rows df)"

definition harmonize_variables_race_eth :: "frame \<Rightarrow> cell list" where
  \<comment> \<open>the \<^verbatim>\<open>race_eth\<close> column of \<^verbatim>\<open>harmonize_variables\<close>\<close>
  "harmonize_variables_race_eth df = map (df_get df ''RIDRETH1'' NaN) (rows df)"

definition create_rir_cohort_statin_step :: "frame \<Rightarrow> py_error + frame" where
  \<comment> \<open>the fourth filter of \<^verbatim>\<open>create_rir_cohort\<close>:
      \<^verbatim>\<open>df = df[df['statin_user'].notna()]\<close>\<close>
  "create_rir_cohort_statin_step df =
     (if ''statin_user'' \<notin> set (columns df) then Inl (KeyError ''statin_user'')
      else Inr \<lparr>columns = columns df,
                rows = filter (\<lambda>r. \<not> isna (r ''statin_user'')) (rows df)\<rparr>)"

section \<open>Example tables\<close>

text \<open>Small tables and cycle directories on which the properties below are evaluated.\<close>

definition demo_ex :: frame where
  "demo_ex = \<lparr>columns = [''SEQN'', ''RIDAGEYR''],
     rows = [(\<lambda>c. NaN)(''SEQN'' := Num 1, ''RIDAGEYR'' := Num 50),
             (\<lambda>c. NaN)(''SEQN'' := Num 2, ''RIDAGEYR'' := Num 60)]\<rparr>"

definition tchol_ex :: frame where
  "tchol_ex = \<lparr>columns = [''SEQN'', ''LBXTC''],
     rows = [(\<lambda>c. NaN)(''SEQN'' := Num 1, ''LBXTC'' := Num 200)]\<rparr>"

definition crp_ex :: frame where
  \<comment> \<open>a C-reactive protein file of the 2005-2010 cycles: 0.3 mg/dL\<close>
  "crp_ex = \<lparr>columns = [''SEQN'', ''LBXCRP''],
     rows = [(\<lambda>c. NaN)(''SEQN'' := Num 1, ''LBXCRP'' := Num (3 / 10))]\<rparr>"

definition rx_ex :: frame where
  \<comment> \<open>two medications of participant 1, none of participant 2\<close>
  "rx_ex = \<lparr>columns = [''SEQN'', ''RXDDRUG''],
     rows = [(\<lambda>c. NaN)(''SEQN'' := Num 1, ''RXDDRUG'' := Str ''lisinopril''),
             (\<lambda>c. NaN)(''SEQN'' := Num 1, ''RXDDRUG'' := Str ''ATORVASTATIN CALCIUM 10MG'')]\<rparr>"

definition rx_class_ex :: frame where
  \<comment> \<open>two medications known by their therapeutic class only, one under the class code
      of each script\<close>
  "rx_class_ex = \<lparr>columns = [''SEQN'', ''RXDDRUG'', ''RXDDCI1A''],
     rows = [(\<lambda>c. NaN)(''SEQN'' := Num 1, ''RXDDRUG'' := Str ''99999'', ''RXDDCI1A'' := Str ''358''),
             (\<lambda>c. NaN)(''SEQN'' := Num 2, ''RXDDRUG'' := Str ''99999'', ''RXDDCI1A'' := Str ''CV350'')]\<rparr>"

definition demo2_ex :: frame where
  "demo2_ex = \<lparr>columns = [''SEQN'', ''RIDAGEYR''],
     rows = [(\<lambda>c. NaN)(''SEQN'' := Num 3, ''RIDAGEYR'' := Num 40),
             (\<lambda>c. NaN)(''SEQN'' := Num 4, ''RIDAGEYR'' := Num 70)]\<rparr>"

definition rx2_ex :: frame where
  "rx2_ex = \<lparr>columns = [''SEQN'', ''RXDDRUG''],
     rows = [(\<lambda>c. NaN)(''SEQN'' := Num 3, ''RXDDRUG'' := Str ''SIMVASTATIN'')]\<rparr>"

definition rx_brand_ex :: frame where
  "rx_brand_ex = \<lparr>columns = [''SEQN'', ''RXDDRUG''],
     rows = [(\<lambda>c. NaN)(''SEQN'' := Num 1, ''RXDDRUG'' := Str ''LIPITOR'')]\<rparr>"

definition cycle_2005_ex :: frame where
  \<comment> \<open>a processed cycle before 2011: the older race coding only\<close>
  "cycle_2005_ex = \<lparr>columns = [''SEQN'', ''RIDRETH1''],
     rows = [(\<lambda>c. NaN)(''SEQN'' := Num 1, ''RIDRETH1'' := Num 3)]\<rparr>"

definition cycle_2015_ex :: frame where
  \<comment> \<open>a processed cycle from 2011 on: both codings\<close>
  "cycle_2015_ex = \<lparr>columns = [''SEQN'', ''RIDRETH1'', ''RIDRETH3''],
     rows = [(\<lambda>c. NaN)(''SEQN'' := Num 2, ''RIDRETH1'' := Num 5, ''RIDRETH3'' := Num 6)]\<rparr>"

definition cells :: "frame \<Rightarrow> string list \<Rightarrow> cell list list" where
  \<comment> \<open>the cells of the given columns, row by row\<close>
  "cells df cols = map (\<lambda>r. map r cols) (rows df)"

definition dir_crp_ex :: cycle_dir where
  "dir_crp_ex = [(''DEMO_D.xpt'', demo_ex), (''CRP_D.xpt'', crp_ex)]"

definition dir_tchol_ex :: cycle_dir where
  "dir_tchol_ex = [(''DEMO_D.xpt'', demo_ex), (''TCHOL_D.xpt'', tchol_ex)]"

definition dir_rx_ex :: cycle_dir where
  "dir_rx_ex = [(''DEMO_D.xpt'', demo_ex), (''RXQ_RX_D.xpt'', rx_ex)]"

definition dir_rx2_ex :: cycle_dir where
  "dir_rx2_ex = [(''DEMO_I.xpt'', demo2_ex), (''RXQ_RX_I.xpt'', rx2_ex)]"

definition dir_norx_ex :: cycle_dir where
  "dir_norx_ex = [(''DEMO_D.xpt'', demo_ex)]"

definition dir_badrx_ex :: cycle_dir where
  \<comment> \<open>the prescription file is there and cannot be read\<close>
  "dir_badrx_ex = [(''DEMO_D.xpt'', demo_ex), (''RXQ_RX_D.xpt'', empty_frame)]"

definition dir_baddemo_ex :: cycle_dir where
  \<comment> \<open>the demographics file is there and cannot be read; the cholesterol file is fine\<close>
  "dir_baddemo_ex = [(''DEMO_D.xpt'', empty_frame), (''TCHOL_D.xpt'', tchol_ex)]"

definition dir_nodemo_ex :: cycle_dir where
  \<comment> \<open>no demographics file\<close>
  "dir_nodemo_ex = [(''TCHOL_D.xpt'', tchol_ex)]"

definition statin_mixed_ex :: frame where
  \<comment> \<open>a combined table with a missing statin status, a user and a non-user\<close>
  "statin_mixed_ex = \<lparr>columns = [''SEQN'', ''statin_user''],
     rows = [(\<lambda>c. NaN)(''SEQN'' := Num 1),
             (\<lambda>c. NaN)(''SEQN'' := Num 2, ''statin_user'' := Num 1),
             (\<lambda>c. NaN)(''SEQN'' := Num 3, ''statin_user'' := Num 0)]\<rparr>"

definition no_fmt :: "rat \<Rightarrow> string" where
  \<comment> \<open>a float rendering for the examples, none of which renders a float\<close>
  "no_fmt x = ''0.0''"

section \<open>Properties\<close>

subsection \<open>LDL cholesterol\<close>

lemma compute_ldl_friedewald_formula:
  "compute_ldl_friedewald (Num tc) (Num hdl) (Num tg) =
     (if tg < 400 \<and> 0 \<le> tc - hdl - tg / 5 then Num (tc - hdl - tg / 5) else NaN)"
  by (simp add: compute_ldl_friedewald_def Let_def)

lemma compute_ldl_friedewald_high_trigly:
  "ge_num trigly 400 \<Longrightarrow> compute_ldl_friedewald tchol hdl trigly = NaN"
  by (simp add: compute_ldl_friedewald_def Let_def)

lemma compute_ldl_friedewald_not_negative:
  "compute_ldl_friedewald tchol hdl trigly = Num x \<Longrightarrow> 0 \<le> x"
  by (auto simp: compute_ldl_friedewald_def Let_def split: if_splits)

lemma compute_ldl_friedewald_example:
  "compute_ldl_friedewald (Num 200) (Num 50) (Num 150) = Num 120"
  by (simp add: compute_ldl_friedewald_def Let_def)

lemma calculate_ldl_formula:
  "calculate_ldl (Num tc) (Num hdl) (Num tg) None =
     (if tg < 400 then Num (tc - hdl - tg / 5) else NaN)"
  by (simp add: calculate_ldl_def Let_def)

text \<open>
  C3. The derived LDL-C is \<open>TC - HDL - TG/5\<close> for triglycerides below 400, missing from
  400 on, and a negative result is set missing. The cohort builder does all three
  (lemmas above). The processing script's \<^verbatim>\<open>calculate_ldl\<close> has no rejection of
  negative results: for total cholesterol 100, HDL 90 and triglycerides 100, called as
  \<^verbatim>\<open>harmonize_variables\<close> calls it (no direct LDL), it returns \<open>-10\<close>.
\<close>

theorem calculate_ldl_negative:
  "calculate_ldl (Num 100) (Num 90) (Num 100) None = Num (- 10)
   \<and> compute_ldl_friedewald (Num 100) (Num 90) (Num 100) = NaN"
  by (simp add: calculate_ldl_def compute_ldl_friedewald_def Let_def)

subsection \<open>History of cardiovascular disease\<close>

text \<open>
  C10. The cohort builder's \<^verbatim>\<open>define_cvd_history\<close> returns one value per row, each
  a definite 0 or 1; a row whose five source columns are each absent from the frame or NaN
  gets 0.
\<close>

theorem define_cvd_history_definite:
  "length (define_cvd_history df) = length (rows df) \<and>
   (\<forall>i < length (rows df).
      (define_cvd_history df ! i = Num 0 \<or> define_cvd_history df ! i = Num 1) \<and>
      ((\<forall>c \<in> set cvd_sources. c \<notin> set (columns df) \<or> (rows df ! i) c = NaN)
         \<longrightarrow> define_cvd_history df ! i = Num 0))"
  by (auto simp: define_cvd_history_def cvd_sources_def df_get_def astype_float_def Let_def)

theorem define_cvd_history_definite_witness:
  "define_cvd_history
     \<lparr>columns = [''SEQN'', ''MCQ160C''],
      rows = [(\<lambda>c. NaN)(''SEQN'' := Num 7), (\<lambda>c. NaN)(''SEQN'' := Num 8, ''MCQ160C'' := Num 1)]\<rparr>
   = [Num 0, Num 1]"
proof -
  let ?df = "\<lparr>columns = [''SEQN'', ''MCQ160C''],
      rows = [(\<lambda>c. NaN)(''SEQN'' := Num 7), (\<lambda>c. NaN)(''SEQN'' := Num 8, ''MCQ160C'' := Num 1)]\<rparr>"
  have len: "length (define_cvd_history ?df) = 2"
    using define_cvd_history_definite [of ?df] by simp
  have r0: "define_cvd_history ?df ! 0 = Num 0"
    using define_cvd_history_definite [of ?df] by (simp add: cvd_sources_def)
  have r1: "define_cvd_history ?df ! 1 = Num 1"
    by (simp add: define_cvd_history_def df_get_def astype_float_def)
  show ?thesis
    using len r0 r1 by (simp add: list_eq_iff_nth_eq less_Suc_eq numeral_2_eq_2)
qed

subsection \<open>Diabetes\<close>

lemma define_diabetes_never_missing:
  "v \<in> set (define_diabetes df) \<Longrightarrow> v = Num 0 \<or> v = Num 1"
  by (auto simp: define_diabetes_def astype_float_def Let_def)

text \<open>
  C6. The diabetes flag is to be true when any one of its signals is affirmative, also
  when the others are missing, and missing only when all sources are missing. Take one
  record with HbA1c, fasting glucose and the doctor's diagnosis missing and the insulin
  question (\<^verbatim>\<open>DIQ050\<close>) answered 1. The cohort builder never reads the insulin or
  medication answers and returns 0; the processing script computes 1 and then overwrites
  it with missing, because its mask looks at three of the five sources only. A record with
  every source missing gets a definite 0 from the cohort builder.
\<close>

theorem diabetes_insulin_only:
  "define_diabetes
     \<lparr>columns = [''SEQN'', ''LBXGH'', ''LBXGLU'', ''DIQ010'', ''DIQ050'', ''DIQ070''],
      rows = [(\<lambda>c. NaN)(''SEQN'' := Num 1, ''DIQ050'' := Num 1)]\<rparr> = [Num 0]
   \<and> harmonize_variables_diabetes
     \<lparr>columns = [''SEQN'', ''LBXGH'', ''LBXGLU'', ''DIQ010'', ''DIQ050'', ''DIQ070''],
      rows = [(\<lambda>c. NaN)(''SEQN'' := Num 1, ''DIQ050'' := Num 1)]\<rparr> = Inr [NaN]
   \<and> define_diabetes
     \<lparr>columns = [''SEQN'', ''LBXGH'', ''LBXGLU'', ''DIQ010'', ''DIQ050'', ''DIQ070''],
      rows = [(\<lambda>c. NaN)(''SEQN'' := Num 2)]\<rparr> = [Num 0]"
  by (simp add: define_diabetes_def harmonize_variables_diabetes_def df_get_def
      astype_float_def isna_def)

subsection \<open>Lists\<close>

lemma set_dedup: "set (dedup xs) = set xs"
  by (induction xs rule: dedup.induct) auto

lemma distinct_dedup: "distinct (dedup xs)"
  by (induction xs rule: dedup.induct) (auto simp: set_dedup)

lemma filter_concat_map_key:
  assumes "\<And>x y. x \<in> set xs \<Longrightarrow> y \<in> set (f x) \<Longrightarrow> k y = k x"
  shows "filter (\<lambda>y. k y = s) (concat (map f xs)) = concat (map f (filter (\<lambda>x. k x = s) xs))"
  using assms
proof (induction xs)
  case Nil
  then show ?case by simp
next
  case (Cons x xs)
  have here: "filter (\<lambda>y. k y = s) (f x) = (if k x = s then f x else [])"
    using Cons.prems [of x] by (auto simp: filter_empty_conv intro: filter_True)
  have rest: "filter (\<lambda>y. k y = s) (concat (map f xs)) = concat (map f (filter (\<lambda>x. k x = s) xs))"
    using Cons by simp
  show ?case by (simp add: here rest)
qed

lemma length_concat_map_ge:
  assumes "\<And>x. x \<in> set xs \<Longrightarrow> f x \<noteq> []"
  shows "length xs \<le> length (concat (map f xs))"
  using assms
proof (induction xs)
  case Nil
  then show ?case by simp
next
  case (Cons x xs)
  then have "f x \<noteq> []" by simp
  then have "1 \<le> length (f x)" by (cases "f x") auto
  moreover have "length xs \<le> length (concat (map f xs))" using Cons by simp
  ultimately show ?case by simp
qed

subsection \<open>The left join\<close>

lemma merge_left_Inr:
  assumes "merge_left left right ls rs = Inr m"
  shows "''SEQN'' \<in> set (columns left)" and "''SEQN'' \<in> set (columns right)"
    and "distinct (map fst (left_labels left right ls) @ map fst (right_labels left right rs))"
    and "columns m = map fst (left_labels left right ls) @ map fst (right_labels left right rs)"
    and "rows m = concat (map (join_rows (left_labels left right ls) (right_labels left right rs)
                                 (rows right)) (rows left))"
  using assms by (auto simp: merge_left_def split: if_splits)

lemma join_row_key:
  assumes "merge_left left right ls rs = Inr m"
  shows "join_row (left_labels left right ls) l rren r ''SEQN'' = l ''SEQN''"
proof -
  have "(''SEQN'', ''SEQN'') \<in> set (left_labels left right ls)"
    using merge_left_Inr(1) [OF assms] by (force simp: left_labels_def)
  moreover have "distinct (map fst (left_labels left right ls))"
    using merge_left_Inr(3) [OF assms] by simp
  ultimately have "map_of (left_labels left right ls) ''SEQN'' = Some ''SEQN''"
    by (simp only: map_of_eq_Some_iff)
  then show ?thesis by (simp add: join_row_def)
qed

lemma join_rows_key:
  assumes "merge_left left right ls rs = Inr m"
    and "y \<in> set (join_rows (left_labels left right ls) rren rrows l)"
  shows "y ''SEQN'' = l ''SEQN''"
  using assms(2) join_row_key [OF assms(1)]
  by (auto simp: join_rows_def split: list.splits)

lemma join_rows_nonempty: "join_rows lren rren rrows l \<noteq> []"
  by (simp add: join_rows_def split: list.splits)

lemma join_rows_unmatched:
  assumes "l ''SEQN'' \<notin> set (map (\<lambda>r. r ''SEQN'') rrows)"
  shows "join_rows lren rren rrows l = [join_row lren l rren (\<lambda>c. NaN)]"
proof -
  have "r ''SEQN'' \<noteq> l ''SEQN''" if "r \<in> set rrows" for r
  proof
    assume "r ''SEQN'' = l ''SEQN''"
    then have "l ''SEQN'' = (\<lambda>r. r ''SEQN'') r" by simp
    then have "l ''SEQN'' \<in> (\<lambda>r. r ''SEQN'') ` set rrows"
      using that by (rule image_eqI)
    with assms show False by simp
  qed
  then have "filter (\<lambda>r. r ''SEQN'' = l ''SEQN'') rrows = []"
    by (simp add: filter_empty_conv)
  then show ?thesis
    by (simp add: join_rows_def)
qed

lemma merge_left_seqn_rows:
  assumes "merge_left left right ls rs = Inr m"
  shows "seqn_rows s (rows m) =
         concat (map (join_rows (left_labels left right ls) (right_labels left right rs) (rows right))
                   (seqn_rows s (rows left)))"
  unfolding seqn_rows_def merge_left_Inr(5) [OF assms]
  by (rule filter_concat_map_key) (rule join_rows_key [OF assms])

lemma merge_left_count:
  assumes "merge_left left right ls rs = Inr m"
  shows "length (seqn_rows s (rows left)) \<le> length (seqn_rows s (rows m))"
  unfolding merge_left_seqn_rows [OF assms]
  by (rule length_concat_map_ge) (rule join_rows_nonempty)

lemma merge_left_absent:
  assumes "merge_left left right ls rs = Inr m" and "s \<notin> set (seqns right)"
  shows "seqn_rows s (rows m) =
         map (\<lambda>l. join_row (left_labels left right ls) l (right_labels left right rs) (\<lambda>c. NaN))
           (seqn_rows s (rows left))"
proof -
  have e: "map (join_rows (left_labels left right ls) (right_labels left right rs) (rows right))
             (seqn_rows s (rows left))
        = map (\<lambda>l. [join_row (left_labels left right ls) l (right_labels left right rs) (\<lambda>c. NaN)])
             (seqn_rows s (rows left))"
    using assms(2) by (intro map_cong refl join_rows_unmatched) (auto simp: seqn_rows_def seqns_def)
  show ?thesis
    by (simp only: merge_left_seqn_rows [OF assms(1)] e concat_map_singleton)
qed

lemma left_labels_no_suffix:
  "map_of (left_labels left right []) c = (if c \<in> set (columns left) then Some c else None)"
proof -
  have eq: "left_labels left right [] = map (\<lambda>c. (c, c)) (columns left)"
    by (auto simp: left_labels_def)
  have "map_of (map (\<lambda>c. (c, c)) xs) c = (if c \<in> set xs then Some c else None)" for xs :: "string list"
    by (induction xs) auto
  then show ?thesis unfolding eq .
qed

lemma join_row_no_suffix_unmatched:
  "join_row (left_labels left right []) l rren (\<lambda>c. NaN) = restrict_row (columns left) l"
  by (rule ext) (simp add: join_row_def restrict_row_def left_labels_no_suffix split: option.splits)

lemma join_row_right_missing:
  assumes "merge_left left right ls rs = Inr m" and "c \<in> set (map fst (right_labels left right rs))"
  shows "join_row (left_labels left right ls) l (right_labels left right rs) (\<lambda>c. NaN) c = NaN"
proof -
  have "c \<notin> set (map fst (left_labels left right ls))"
    using merge_left_Inr(3) [OF assms(1)] assms(2) by auto
  then have "map_of (left_labels left right ls) c = None"
    by (simp add: map_of_eq_None_iff)
  then show ?thesis by (simp add: join_row_def split: option.splits)
qed

subsection \<open>Assignment keeps the rows' participants\<close>

lemma seqn_rows_assign:
  "col \<noteq> ''SEQN'' \<Longrightarrow> length (seqn_rows s (rows (assign df col f))) = length (seqn_rows s (rows df))"
proof -
  assume c: "col \<noteq> ''SEQN''"
  have "filter (\<lambda>r. r ''SEQN'' = s) (map (\<lambda>r. r(col := f r)) xs)
        = map (\<lambda>r. r(col := f r)) (filter (\<lambda>r. r ''SEQN'' = s) xs)" for xs
    using c by (induction xs) auto
  then show ?thesis by (simp add: seqn_rows_def assign_def)
qed

lemma seqn_rows_harmonize_cycle:
  "length (seqn_rows s (rows (harmonize_cycle df))) = length (seqn_rows s (rows df))"
  by (simp add: harmonize_cycle_def Let_def seqn_rows_assign)

subsection \<open>The loops\<close>

lemma merge_components_count:
  "merge_components d df ps = Inr out \<Longrightarrow>
   length (seqn_rows s (rows df)) \<le> length (seqn_rows s (rows out))"
proof (induction ps arbitrary: df)
  case Nil
  then show ?case by simp
next
  case (Cons p ps)
  show ?case
  proof (cases "find_file_bc (map fst d) p")
    case None
    with Cons show ?thesis by simp
  next
    case (Some file_path)
    show ?thesis
    proof (cases "''SEQN'' \<in> set (columns (load_xpt d file_path)) \<and> length (rows (load_xpt d file_path)) > 0")
      case False
      with Some Cons show ?thesis by auto
    next
      case True
      then obtain df' where m: "merge_left df (load_xpt d file_path) [] (''_'' @ p) = Inr df'"
        and rest: "merge_components d df' ps = Inr out"
        using Some Cons.prems by (auto split: sum.splits)
      have "length (seqn_rows s (rows df)) \<le> length (seqn_rows s (rows df'))"
        by (rule merge_left_count [OF m])
      also have "\<dots> \<le> length (seqn_rows s (rows out))"
        by (rule Cons.IH [OF rest])
      finally show ?thesis .
    qed
  qed
qed

lemma select_cols_Inr:
  "select_cols df cols = Inr sel \<Longrightarrow> columns sel = cols \<and> rows sel = map (restrict_row cols) (rows df)"
  by (auto simp: select_cols_def split: option.splits)

lemma process_cycle_labs_pd_count:
  "process_cycle_labs_pd d df labs = Inr out \<Longrightarrow>
   length (seqn_rows s (rows df)) \<le> length (seqn_rows s (rows out))"
proof (induction labs arbitrary: df)
  case Nil
  then show ?case by simp
next
  case (Cons lab labs)
  obtain file_base var_names where lab: "lab = (file_base, var_names)" by (cases lab)
  show ?case
  proof (cases "find_file_pd (map fst d) file_base")
    case None
    with Cons lab show ?thesis by simp
  next
    case (Some lab_file)
    let ?keep = "''SEQN'' # filter (\<lambda>v. v \<in> set (columns (upper_columns (load_xpt d lab_file)))) var_names"
    show ?thesis
    proof (cases "\<not> is_empty (load_xpt d lab_file) \<and> length ?keep > 1")
      case False
      with Some Cons lab show ?thesis by (auto split: if_splits)
    next
      case True
      then obtain sel df' where "select_cols (upper_columns (load_xpt d lab_file)) ?keep = Inr sel"
        and m: "merge_left df sel ''_x'' ''_y'' = Inr df'"
        and rest: "process_cycle_labs_pd d df' labs = Inr out"
        using Some Cons.prems lab by (auto split: sum.splits if_splits)
      have "length (seqn_rows s (rows df)) \<le> length (seqn_rows s (rows df'))"
        by (rule merge_left_count [OF m])
      also have "\<dots> \<le> length (seqn_rows s (rows out))"
        by (rule Cons.IH [OF rest])
      finally show ?thesis .
    qed
  qed
qed

lemma process_cycle_statin_bc_count:
  "process_cycle_statin_bc fmt d df = Inr out \<Longrightarrow>
   length (seqn_rows s (rows out)) = length (seqn_rows s (rows df))"
  by (auto simp: process_cycle_statin_bc_def seqn_rows_assign split: option.splits sum.splits if_splits)

lemma process_cycle_bc_count:
  assumes "process_cycle_bc fmt cycle (Some d) = Inr out"
    and "find_file_bc (map fst d) ''DEMO'' = Some demo_file"
  shows "length (seqn_rows s (rows (load_xpt d demo_file))) \<le> length (seqn_rows s (rows out))"
proof -
  obtain df df' where c: "merge_components d (load_xpt d demo_file) components_bc = Inr df"
    and st: "process_cycle_statin_bc fmt d df = Inr df'"
    and out: "out = harmonize_cycle (assign (assign df' ''cycle'' (\<lambda>r. Str cycle))
                      ''is_prepandemic'' (\<lambda>r. astype_float (contains ''2017'' cycle)))"
    using assms by (auto simp: process_cycle_bc_def split: sum.splits)
  have "length (seqn_rows s (rows (load_xpt d demo_file))) \<le> length (seqn_rows s (rows df))"
    by (rule merge_components_count [OF c])
  also have "\<dots> = length (seqn_rows s (rows df'))"
    by (simp add: process_cycle_statin_bc_count [OF st])
  also have "\<dots> = length (seqn_rows s (rows out))"
    by (simp add: out seqn_rows_harmonize_cycle seqn_rows_assign)
  finally show ?thesis .
qed

lemma merge_file_pd_count:
  "merge_file_pd d df file cols = Inr out \<Longrightarrow>
   length (seqn_rows s (rows df)) \<le> length (seqn_rows s (rows out))"
  by (auto simp: merge_file_pd_def merge_left_count split: option.splits if_splits sum.splits)

lemma process_cycle_crp_pd_count:
  "process_cycle_crp_pd d df crp_loaded ps = Inr out \<Longrightarrow>
   length (seqn_rows s (rows df)) \<le> length (seqn_rows s (rows out))"
proof (induction ps arbitrary: df crp_loaded)
  case Nil
  then show ?case by simp
next
  case (Cons p ps)
  show ?case
  proof (cases "find_file_pd (map fst d) p")
    case None
    with Cons show ?thesis by simp
  next
    case (Some crp_file)
    let ?vars = "filter (\<lambda>v. v \<in> set (columns (upper_columns (load_xpt d crp_file))))
                   [''LBXHSCRP'', ''LBXCRP'']"
    show ?thesis
    proof (cases "crp_loaded \<or> is_empty (load_xpt d crp_file) \<or> ?vars = []")
      case True
      then have "process_cycle_crp_pd d df crp_loaded ps = Inr out"
        using Some Cons.prems by (auto split: if_splits)
      then show ?thesis by (rule Cons.IH)
    next
      case False
      then obtain sel df' where m: "merge_left df sel ''_x'' ''_y'' = Inr df'"
        and rest: "process_cycle_crp_pd d df' True ps = Inr out"
        using Some Cons.prems by (auto split: sum.splits if_splits)
      have "length (seqn_rows s (rows df)) \<le> length (seqn_rows s (rows df'))"
        by (rule merge_left_count [OF m])
      also have "\<dots> \<le> length (seqn_rows s (rows out))"
        by (rule Cons.IH [OF rest])
      finally show ?thesis .
    qed
  qed
qed

lemma process_cycle_statin_pd_count:
  assumes "process_cycle_statin_pd fmt d df = Inr out"
  shows "length (seqn_rows s (rows df)) \<le> length (seqn_rows s (rows out))"
proof (cases "find_file_pd (map fst d) ''RXQ_RX''")
  case None
  then have "out = assign df ''statin_user'' (\<lambda>r. Num 0)"
    using assms by (simp add: process_cycle_statin_pd_def)
  then show ?thesis by (simp add: seqn_rows_assign)
next
  case (Some f)
  let ?sdf = "identify_statin_users_pd fmt (load_xpt d f)"
  show ?thesis
  proof (cases "is_empty (load_xpt d f) \<or> is_empty ?sdf")
    case True
    then have "out = df" using assms Some by (auto simp: process_cycle_statin_pd_def split: if_splits)
    then show ?thesis by simp
  next
    case False
    then obtain df' where m: "merge_left df ?sdf ''_x'' ''_y'' = Inr df'"
      and out: "out = assign df' ''statin_user'' (\<lambda>r. fillna (r ''statin_user'') (Num 0))"
      using assms Some by (auto simp: process_cycle_statin_pd_def split: sum.splits if_splits)
    have "length (seqn_rows s (rows df)) \<le> length (seqn_rows s (rows df'))"
      by (rule merge_left_count [OF m])
    then show ?thesis by (simp add: out seqn_rows_assign)
  qed
qed

lemma and_then_Inr:
  "and_then r f = Inr out \<Longrightarrow> \<exists>df. r = Inr df \<and> f df = Inr out"
  by (cases r) (auto simp: and_then_def)

lemma process_cycle_pd_count:
  assumes "process_cycle_pd fmt cycle (Some d) = Inr out"
    and "process_cycle_demo_pd d = Some df0"
  shows "length (seqn_rows s (rows df0)) \<le> length (seqn_rows s (rows out))"
proof -
  from assms obtain df1 df2 df3 df4 df5 df6 df7 df8 where
    s1: "process_cycle_labs_pd d df0 lab_files = Inr df1" and
    s2: "process_cycle_crp_pd d df1 False [''HSCRP'', ''CRP''] = Inr df2" and
    s3: "merge_file_pd d df2 (find_file_pd (map fst d) ''BMX'')
           [''SEQN'', ''BMXBMI'', ''BMXWT'', ''BMXHT''] = Inr df3" and
    s4: "merge_file_pd d df3
           (case find_file_pd (map fst d) ''BPX'' of
              Some bp_file \<Rightarrow> Some bp_file
            | None \<Rightarrow> find_file_pd (map fst d) ''BPXO'')
           [''SEQN'', ''BPXSY1'', ''BPXSY2'', ''BPXSY3'',
            ''BPXDI1'', ''BPXDI2'', ''BPXDI3'',
            ''BPXOSY1'', ''BPXOSY2'', ''BPXOSY3'',
            ''BPXODI1'', ''BPXODI2'', ''BPXODI3''] = Inr df4" and
    s5: "merge_file_pd d df4 (find_file_pd (map fst d) ''DIQ'')
           [''SEQN'', ''DIQ010'', ''DIQ050'', ''DIQ070''] = Inr df5" and
    s6: "merge_file_pd d df5 (find_file_pd (map fst d) ''BPQ'')
           [''SEQN'', ''BPQ020'', ''BPQ040A''] = Inr df6" and
    s7: "merge_file_pd d df6 (find_file_pd (map fst d) ''SMQ'')
           [''SEQN'', ''SMQ020'', ''SMQ040''] = Inr df7" and
    s8: "process_cycle_statin_pd fmt d df7 = Inr df8" and
    out: "out = assign df8 ''cycle'' (\<lambda>r. Str cycle)"
    unfolding process_cycle_pd_def by (auto dest!: and_then_Inr)
  have "length (seqn_rows s (rows df0)) \<le> length (seqn_rows s (rows df1))"
    by (rule process_cycle_labs_pd_count [OF s1])
  also have "\<dots> \<le> length (seqn_rows s (rows df2))"
    by (rule process_cycle_crp_pd_count [OF s2])
  also have "\<dots> \<le> length (seqn_rows s (rows df3))"
    by (rule merge_file_pd_count [OF s3])
  also have "\<dots> \<le> length (seqn_rows s (rows df4))"
    by (rule merge_file_pd_count [OF s4])
  also have "\<dots> \<le> length (seqn_rows s (rows df5))"
    by (rule merge_file_pd_count [OF s5])
  also have "\<dots> \<le> length (seqn_rows s (rows df6))"
    by (rule merge_file_pd_count [OF s6])
  also have "\<dots> \<le> length (seqn_rows s (rows df7))"
    by (rule merge_file_pd_count [OF s7])
  also have "\<dots> \<le> length (seqn_rows s (rows df8))"
    by (rule process_cycle_statin_pd_count [OF s8])
  also have "\<dots> = length (seqn_rows s (rows out))"
    by (simp add: out seqn_rows_assign)
  finally show ?thesis .
qed

lemma merge_components_joins:
  assumes "find_file_bc (map fst d) p = Some f"
    and "''SEQN'' \<in> set (columns (load_xpt d f))" and "rows (load_xpt d f) \<noteq> []"
  shows "merge_components d df (p # ps) =
     (case merge_left df (load_xpt d f) [] (''_'' @ p) of
        Inl e \<Rightarrow> Inl e
      | Inr df' \<Rightarrow> merge_components d df' ps)"
  using assms by simp

lemma merge_components_skips:
  assumes "find_file_bc (map fst d) p = Some f"
    and "''SEQN'' \<notin> set (columns (load_xpt d f)) \<or> rows (load_xpt d f) = []"
  shows "merge_components d df (p # ps) = merge_components d df ps"
  using assms by auto

lemma process_cycle_labs_pd_joins:
  assumes "find_file_pd (map fst d) file_base = Some f" and "\<not> is_empty (load_xpt d f)"
    and "filter (\<lambda>v. v \<in> set (columns (upper_columns (load_xpt d f)))) var_names \<noteq> []"
  shows "process_cycle_labs_pd d df ((file_base, var_names) # labs) =
     (case select_cols (upper_columns (load_xpt d f))
             (''SEQN'' # filter (\<lambda>v. v \<in> set (columns (upper_columns (load_xpt d f)))) var_names) of
        Inl e \<Rightarrow> Inl e
      | Inr sel \<Rightarrow>
          (case merge_left df sel ''_x'' ''_y'' of
             Inl e \<Rightarrow> Inl e
           | Inr df' \<Rightarrow> process_cycle_labs_pd d df' labs))"
  using assms by (cases "filter (\<lambda>v. v \<in> set (columns (upper_columns (load_xpt d f)))) var_names") auto

text \<open>
  The left join in the two per-cycle mergers. A participant with no row in the component
  keeps each of their rows once, the values of the left table unchanged and the
  component's variables missing (cohort builder, whose left suffix is empty), respectively
  the same number of rows with the component's variables missing (processing script);
  neither loop ever has fewer rows of a participant than the table it started from; a
  component whose file is not found is skipped, whatever the rest of the run does; and
  when no demographics file is found the cycle's result is the empty frame.
\<close>

lemma left_join_keeps_demographics:
  "(merge_left df comp_df [] rsuffix = Inr m \<and> s \<notin> set (seqns comp_df) \<longrightarrow>
      seqn_rows s (rows m) = map (restrict_row (columns df)) (seqn_rows s (rows df)))
   \<and> (merge_left df comp_df ''_x'' ''_y'' = Inr m' \<and> s \<notin> set (seqns comp_df) \<longrightarrow>
      length (seqn_rows s (rows m')) = length (seqn_rows s (rows df)) \<and>
      (\<forall>y \<in> set (seqn_rows s (rows m')). \<forall>c \<in> set (map fst (right_labels df comp_df ''_y'')). y c = NaN))
   \<and> (merge_components d df ps = Inr out \<longrightarrow>
      length (seqn_rows s (rows df)) \<le> length (seqn_rows s (rows out)))
   \<and> (process_cycle_labs_pd d df labs = Inr out' \<longrightarrow>
      length (seqn_rows s (rows df)) \<le> length (seqn_rows s (rows out')))
   \<and> (find_file_bc (map fst d) p = None \<longrightarrow>
      merge_components d df (p # ps) = merge_components d df ps)
   \<and> (find_file_pd (map fst d) file_base = None \<longrightarrow>
      process_cycle_labs_pd d df ((file_base, var_names) # labs) = process_cycle_labs_pd d df labs)
   \<and> (find_file_bc (map fst d) ''DEMO'' = None \<longrightarrow>
      process_cycle_bc fmt cycle (Some d) = Inr empty_frame)
   \<and> (find_file_pd (map fst d) ''DEMO'' = None \<longrightarrow> process_cycle_demo_pd d = None)"
proof (intro conjI impI)
  assume "merge_left df comp_df [] rsuffix = Inr m \<and> s \<notin> set (seqns comp_df)"
  then show "seqn_rows s (rows m) = map (restrict_row (columns df)) (seqn_rows s (rows df))"
    using merge_left_absent [of df comp_df "[]" rsuffix m s]
    by (simp add: join_row_no_suffix_unmatched)
next
  assume a: "merge_left df comp_df ''_x'' ''_y'' = Inr m' \<and> s \<notin> set (seqns comp_df)"
  then have eq: "seqn_rows s (rows m') =
      map (\<lambda>l. join_row (left_labels df comp_df ''_x'') l (right_labels df comp_df ''_y'') (\<lambda>c. NaN))
        (seqn_rows s (rows df))"
    using merge_left_absent [of df comp_df "''_x''" "''_y''" m' s] by simp
  show "length (seqn_rows s (rows m')) = length (seqn_rows s (rows df))"
    by (simp add: eq)
  show "\<forall>y \<in> set (seqn_rows s (rows m')). \<forall>c \<in> set (map fst (right_labels df comp_df ''_y'')). y c = NaN"
    unfolding eq using join_row_right_missing [of df comp_df "''_x''" "''_y''" m'] a by auto
next
  assume "merge_components d df ps = Inr out"
  then show "length (seqn_rows s (rows df)) \<le> length (seqn_rows s (rows out))"
    by (rule merge_components_count)
next
  assume "process_cycle_labs_pd d df labs = Inr out'"
  then show "length (seqn_rows s (rows df)) \<le> length (seqn_rows s (rows out'))"
    by (rule process_cycle_labs_pd_count)
next
  assume "find_file_bc (map fst d) p = None"
  then show "merge_components d df (p # ps) = merge_components d df ps" by simp
next
  assume "find_file_pd (map fst d) file_base = None"
  then show "process_cycle_labs_pd d df ((file_base, var_names) # labs) = process_cycle_labs_pd d df labs"
    by simp
next
  assume "find_file_bc (map fst d) ''DEMO'' = None"
  then show "process_cycle_bc fmt cycle (Some d) = Inr empty_frame"
    by (simp add: process_cycle_bc_def)
next
  assume "find_file_pd (map fst d) ''DEMO'' = None"
  then show "process_cycle_demo_pd d = None"
    by (simp add: process_cycle_demo_pd_def)
qed


lemma left_join_keeps_demographics_example:
  "\<not> isl (merge_left demo_ex tchol_ex [] ''_TCHOL'') \<and> Num 2 \<notin> set (seqns tchol_ex)
   \<and> seqn_rows (Num 2) (rows (projr (merge_left demo_ex tchol_ex [] ''_TCHOL'')))
       = map (restrict_row (columns demo_ex)) (seqn_rows (Num 2) (rows demo_ex))
   \<and> length (seqn_rows (Num 2) (rows demo_ex)) = 1
   \<and> \<not> isl (merge_left demo_ex tchol_ex ''_x'' ''_y'')
   \<and> length (seqn_rows (Num 2) (rows (projr (merge_left demo_ex tchol_ex ''_x'' ''_y'')))) = 1
   \<and> list_all (\<lambda>y. y ''LBXTC'' = NaN)
        (seqn_rows (Num 2) (rows (projr (merge_left demo_ex tchol_ex ''_x'' ''_y''))))
   \<and> \<not> isl (merge_components dir_tchol_ex demo_ex [''HDL'', ''TCHOL''])
   \<and> 1 \<le> length (seqn_rows (Num 2) (rows (projr (merge_components dir_tchol_ex demo_ex [''HDL'', ''TCHOL'']))))
   \<and> \<not> isl (process_cycle_labs_pd dir_tchol_ex demo_ex lab_files)
   \<and> 1 \<le> length (seqn_rows (Num 2) (rows (projr (process_cycle_labs_pd dir_tchol_ex demo_ex lab_files))))
   \<and> find_file_bc (map fst dir_tchol_ex) ''HDL'' = None
   \<and> merge_components dir_tchol_ex demo_ex [''HDL'', ''TCHOL''] = merge_components dir_tchol_ex demo_ex [''TCHOL'']
   \<and> find_file_pd (map fst dir_tchol_ex) ''HDL'' = None
   \<and> process_cycle_labs_pd dir_tchol_ex demo_ex [(''HDL'', [''LBDHDD'', ''LBXHDD'']), (''TCHOL'', [''LBXTC''])]
       = process_cycle_labs_pd dir_tchol_ex demo_ex [(''TCHOL'', [''LBXTC''])]
   \<and> find_file_bc (map fst [(''TCHOL_D.xpt'', tchol_ex)]) ''DEMO'' = None
   \<and> process_cycle_bc no_fmt ''2005-2006'' (Some [(''TCHOL_D.xpt'', tchol_ex)]) = Inr empty_frame
   \<and> find_file_pd (map fst [(''TCHOL_D.xpt'', tchol_ex)]) ''DEMO'' = None
   \<and> process_cycle_demo_pd [(''TCHOL_D.xpt'', tchol_ex)] = None"
proof -
  have m1: "\<not> isl (merge_left demo_ex tchol_ex [] ''_TCHOL'')" by code_simp
  have m2: "\<not> isl (merge_left demo_ex tchol_ex ''_x'' ''_y'')" by code_simp
  have m3: "\<not> isl (merge_components dir_tchol_ex demo_ex [''HDL'', ''TCHOL''])" by code_simp
  have m4: "\<not> isl (process_cycle_labs_pd dir_tchol_ex demo_ex lab_files)" by code_simp
  have a: "Num 2 \<notin> set (seqns tchol_ex)" by code_simp
  have n: "length (seqn_rows (Num 2) (rows demo_ex)) = 1" by code_simp
  have l: "map fst (right_labels demo_ex tchol_ex ''_y'') = [''LBXTC'']" by code_simp
  have f1: "find_file_bc (map fst dir_tchol_ex) ''HDL'' = None" by code_simp
  have f2: "find_file_pd (map fst dir_tchol_ex) ''HDL'' = None" by code_simp
  have f3: "find_file_bc (map fst [(''TCHOL_D.xpt'', tchol_ex)]) ''DEMO'' = None" by code_simp
  have f4: "find_file_pd (map fst [(''TCHOL_D.xpt'', tchol_ex)]) ''DEMO'' = None" by code_simp
  note t1 = left_join_keeps_demographics
    [where df = demo_ex and comp_df = tchol_ex and rsuffix = "''_TCHOL''" and s = "Num 2"
       and m = "projr (merge_left demo_ex tchol_ex [] ''_TCHOL'')"
       and m' = "projr (merge_left demo_ex tchol_ex ''_x'' ''_y'')"
       and d = dir_tchol_ex and ps = "[''TCHOL'']" and p = "''HDL''"
       and out = "projr (merge_components dir_tchol_ex demo_ex [''HDL'', ''TCHOL''])"
       and labs = "[(''TCHOL'', [''LBXTC''])]" and file_base = "''HDL''"
       and var_names = "[''LBDHDD'', ''LBXHDD'']"]
  note t2 = left_join_keeps_demographics
    [where df = demo_ex and d = dir_tchol_ex and ps = "[''HDL'', ''TCHOL'']" and s = "Num 2"
       and out = "projr (merge_components dir_tchol_ex demo_ex [''HDL'', ''TCHOL''])"
       and labs = lab_files
       and out' = "projr (process_cycle_labs_pd dir_tchol_ex demo_ex lab_files)"]
  note t3 = left_join_keeps_demographics
    [where d = "[(''TCHOL_D.xpt'', tchol_ex)]" and fmt = no_fmt and cycle = "''2005-2006''"]
  have c1: "seqn_rows (Num 2) (rows (projr (merge_left demo_ex tchol_ex [] ''_TCHOL'')))
       = map (restrict_row (columns demo_ex)) (seqn_rows (Num 2) (rows demo_ex))"
    using t1 m1 a by simp
  have c2: "length (seqn_rows (Num 2) (rows (projr (merge_left demo_ex tchol_ex ''_x'' ''_y'')))) = 1"
    using t1 m2 a n by simp
  have c3: "list_all (\<lambda>y. y ''LBXTC'' = NaN)
        (seqn_rows (Num 2) (rows (projr (merge_left demo_ex tchol_ex ''_x'' ''_y''))))"
    using t1 m2 a l by (simp add: list_all_iff)
  have c4: "1 \<le> length (seqn_rows (Num 2) (rows (projr (merge_components dir_tchol_ex demo_ex [''HDL'', ''TCHOL'']))))"
    using t2 m3 n by simp
  have c5: "1 \<le> length (seqn_rows (Num 2) (rows (projr (process_cycle_labs_pd dir_tchol_ex demo_ex lab_files))))"
    using t2 m4 n by simp
  have c6: "merge_components dir_tchol_ex demo_ex [''HDL'', ''TCHOL''] = merge_components dir_tchol_ex demo_ex [''TCHOL'']"
    using t1 f1 by blast
  have c7: "process_cycle_labs_pd dir_tchol_ex demo_ex [(''HDL'', [''LBDHDD'', ''LBXHDD'']), (''TCHOL'', [''LBXTC''])]
       = process_cycle_labs_pd dir_tchol_ex demo_ex [(''TCHOL'', [''LBXTC''])]"
    using t1 f2 by blast
  have c8: "process_cycle_bc no_fmt ''2005-2006'' (Some [(''TCHOL_D.xpt'', tchol_ex)]) = Inr empty_frame"
    using t3 f3 by blast
  have c9: "process_cycle_demo_pd [(''TCHOL_D.xpt'', tchol_ex)] = None"
    using t3 f4 by blast
  show ?thesis
    using m1 a c1 n m2 c2 c3 m3 c4 m4 c5 f1 c6 f2 c7 f3 c8 f4 c9 by blast
qed

text \<open>
  C8. The per-cycle merger is to left-join every available component onto the
  demographics table, never to raise, and to give an empty result when the demographics
  are missing. Both scripts join as the claim says (lemmas above), and both return the
  empty frame when no demographics file is found. When the demographics file is found
  and cannot be read, \<^verbatim>\<open>load_xpt\<close> returns the empty frame: the processing script
  tests for it and returns the empty frame, the cohort builder has no such test and goes
  on to join the first available component onto a table without the participant column,
  which raises \<^verbatim>\<open>KeyError\<close>.
\<close>

theorem process_cycle_unreadable_demo:
  "(case process_cycle_bc no_fmt ''2005-2006'' (Some dir_baddemo_ex) of
      Inl e \<Rightarrow> Some e | Inr df \<Rightarrow> None)
     = Some (KeyError ''SEQN'')
   \<and> (case process_cycle_pd no_fmt ''2005-2006'' (Some dir_baddemo_ex) of
      Inl e \<Rightarrow> None | Inr df \<Rightarrow> Some (columns df, length (rows df)))
     = Some ([], 0)
   \<and> (case process_cycle_bc no_fmt ''2005-2006'' (Some dir_nodemo_ex) of
      Inl e \<Rightarrow> None | Inr df \<Rightarrow> Some (columns df, length (rows df)))
     = Some ([], 0)
   \<and> (case process_cycle_pd no_fmt ''2005-2006'' (Some dir_nodemo_ex) of
      Inl e \<Rightarrow> None | Inr df \<Rightarrow> Some (columns df, length (rows df)))
     = Some ([], 0)
   \<and> (case process_cycle_bc no_fmt ''2005-2006'' (Some dir_tchol_ex) of
      Inl e \<Rightarrow> [] | Inr df \<Rightarrow> cells df [''SEQN'', ''RIDAGEYR'', ''LBXTC''])
     = [[Num 1, Num 50, Num 200], [Num 2, Num 60, NaN]]
   \<and> (case process_cycle_pd no_fmt ''2005-2006'' (Some dir_tchol_ex) of
      Inl e \<Rightarrow> [] | Inr df \<Rightarrow> cells df [''SEQN'', ''RIDAGEYR'', ''LBXTC''])
     = [[Num 1, Num 50, Num 200], [Num 2, Num 60, NaN]]"
  by code_simp

subsection \<open>Statin status of participants without a medication row\<close>

lemma seqn_rows_assign_map:
  assumes "col \<noteq> ''SEQN''"
  shows "seqn_rows s (rows (assign df col f)) = map (\<lambda>r. r(col := f r)) (seqn_rows s (rows df))"
proof -
  have "filter (\<lambda>r. r ''SEQN'' = s) (map (\<lambda>r. r(col := f r)) xs)
        = map (\<lambda>r. r(col := f r)) (filter (\<lambda>r. r ''SEQN'' = s) xs)" for xs
    using assms by (induction xs) auto
  then show ?thesis by (simp add: seqn_rows_def assign_def)
qed

lemma identify_statin_users_bc_keys:
  assumes "identify_statin_users_bc fmt rx = Inr su"
  shows "fst ` set su \<subseteq> set (seqns rx)"
  using assms
  by (auto simp: identify_statin_users_bc_def seqns_def set_dedup Let_def
           split: if_splits option.splits)

lemma lookup_statin_absent:
  assumes "identify_statin_users_bc fmt rx = Inr su" and "s \<notin> set (seqns rx)"
  shows "lookup_statin su s = NaN"
proof -
  have "s \<notin> fst ` set su"
    using identify_statin_users_bc_keys [OF assms(1)] assms(2) by auto
  then have "map_of su s = None" by (simp add: map_of_eq_None_iff)
  then show ?thesis by (simp add: lookup_statin_def)
qed

lemma process_cycle_statin_bc_no_file:
  assumes "find_file_bc (map fst d) ''RXQ_RX'' = None"
  shows "process_cycle_statin_bc fmt d df = Inr (assign df ''statin_use'' (\<lambda>r. Num 0))"
  using assms by (simp add: process_cycle_statin_bc_def)

lemma process_cycle_statin_bc_absent:
  assumes "find_file_bc (map fst d) ''RXQ_RX'' = Some f"
    and "process_cycle_statin_bc fmt d df = Inr out"
    and "s \<notin> set (seqns (load_xpt d f))"
  shows "seqn_rows s (rows out) = map (\<lambda>r. r(''statin_use'' := Num 0)) (seqn_rows s (rows df))"
proof -
  obtain su where su: "identify_statin_users_bc fmt (load_xpt d f) = Inr su"
    and out: "out = assign df ''statin_use'' (\<lambda>r. fillna (lookup_statin su (r ''SEQN'')) (Num 0))"
    using assms(1,2) by (auto simp: process_cycle_statin_bc_def split: sum.splits if_splits)
  have na: "lookup_statin su s = NaN"
    by (rule lookup_statin_absent [OF su assms(3)])
  have "seqn_rows s (rows out) =
        map (\<lambda>r. r(''statin_use'' := fillna (lookup_statin su (r ''SEQN'')) (Num 0))) (seqn_rows s (rows df))"
    unfolding out by (rule seqn_rows_assign_map) simp
  also have "\<dots> = map (\<lambda>r. r(''statin_use'' := Num 0)) (seqn_rows s (rows df))"
    by (rule map_cong) (auto simp: seqn_rows_def na fillna_def isna_def)
  finally show ?thesis .
qed

lemma identify_statin_users_pd_frame:
  assumes "\<not> is_empty rx" and "''SEQN'' \<in> set (columns rx)"
  shows "columns (identify_statin_users_pd fmt rx) = [''SEQN'', ''statin_user'']"
    and "seqns (identify_statin_users_pd fmt rx) = dedup (seqns (upper_columns rx))"
  using assms by (simp_all add: identify_statin_users_pd_def Let_def seqns_def comp_def)

lemma dedup_Nil_iff: "dedup xs = [] \<longleftrightarrow> xs = []"
  by (cases xs) auto

lemma identify_statin_users_pd_not_empty:
  assumes "\<not> is_empty rx" and "''SEQN'' \<in> set (columns rx)"
  shows "\<not> is_empty (identify_statin_users_pd fmt rx)"
  using assms
  by (simp add: identify_statin_users_pd_def Let_def is_empty_def upper_columns_def dedup_Nil_iff)

lemma process_cycle_statin_pd_no_file:
  assumes "find_file_pd (map fst d) ''RXQ_RX'' = None"
  shows "process_cycle_statin_pd fmt d df = Inr (assign df ''statin_user'' (\<lambda>r. Num 0))"
  using assms by (simp add: process_cycle_statin_pd_def)

lemma process_cycle_statin_pd_absent:
  assumes "find_file_pd (map fst d) ''RXQ_RX'' = Some f"
    and "\<not> is_empty (load_xpt d f)" and "''SEQN'' \<in> set (columns (load_xpt d f))"
    and "process_cycle_statin_pd fmt d df = Inr out"
    and "s \<notin> set (seqns (upper_columns (load_xpt d f)))"
  shows "length (seqn_rows s (rows out)) = length (seqn_rows s (rows df))"
    and "\<forall>y \<in> set (seqn_rows s (rows out)). y ''statin_user'' = Num 0"
proof -
  let ?sdf = "identify_statin_users_pd fmt (load_xpt d f)"
  have cols: "columns ?sdf = [''SEQN'', ''statin_user'']"
    by (rule identify_statin_users_pd_frame(1) [OF assms(2,3)])
  have keys: "s \<notin> set (seqns ?sdf)"
    using assms(5) by (simp add: identify_statin_users_pd_frame(2) [OF assms(2,3)] set_dedup)
  obtain df' where m: "merge_left df ?sdf ''_x'' ''_y'' = Inr df'"
    and su: "''statin_user'' \<in> set (columns df')"
    and out: "out = assign df' ''statin_user'' (\<lambda>r. fillna (r ''statin_user'') (Num 0))"
    using assms(1,2,4) identify_statin_users_pd_not_empty [OF assms(2,3), of fmt]
    by (auto simp: process_cycle_statin_pd_def split: sum.splits if_splits)
  have "''statin_user'' \<notin> set (map fst (left_labels df ?sdf ''_x''))"
    by (auto simp: left_labels_def cols)
  then have r: "''statin_user'' \<in> set (map fst (right_labels df ?sdf ''_y''))"
    using su merge_left_Inr(4) [OF m] by auto
  have eq: "seqn_rows s (rows df') =
      map (\<lambda>l. join_row (left_labels df ?sdf ''_x'') l (right_labels df ?sdf ''_y'') (\<lambda>c. NaN))
        (seqn_rows s (rows df))"
    by (rule merge_left_absent [OF m keys])
  have out_rows: "seqn_rows s (rows out) =
      map (\<lambda>r. r(''statin_user'' := fillna (r ''statin_user'') (Num 0))) (seqn_rows s (rows df'))"
    unfolding out by (rule seqn_rows_assign_map) simp
  show "length (seqn_rows s (rows out)) = length (seqn_rows s (rows df))"
    by (simp add: out_rows eq)
  show "\<forall>y \<in> set (seqn_rows s (rows out)). y ''statin_user'' = Num 0"
    unfolding out_rows eq
    by (auto simp: join_row_right_missing [OF m r] fillna_def isna_def)
qed

lemma create_rir_cohort_statin_step_keeps:
  assumes "create_rir_cohort_statin_step c = Inr c'"
    and "\<forall>y \<in> set (seqn_rows s (rows c)). y ''statin_user'' = Num 0"
  shows "seqn_rows s (rows c') = seqn_rows s (rows c)"
proof -
  have "rows c' = filter (\<lambda>r. \<not> isna (r ''statin_user'')) (rows c)"
    using assms(1) by (auto simp: create_rir_cohort_statin_step_def split: if_splits)
  then have "seqn_rows s (rows c') = filter (\<lambda>r. \<not> isna (r ''statin_user'')) (seqn_rows s (rows c))"
    by (simp add: seqn_rows_def conj_commute)
  also have "\<dots> = seqn_rows s (rows c)"
    using assms(2) by (auto simp: isna_def filter_id_conv)
  finally show ?thesis .
qed


text \<open>
  The claim C2 as the specification states it: a participant with no row in the
  medication table, or in a cycle with no prescription file, has an unknown statin status
  and is removed by the statin step of the cohort filter. Both scripts do otherwise. In the
  example, participant 2 has no medication row, and the second directory has no
  prescription file: the status is 0 each time, and the processing script's statin step
  keeps the participant.
\<close>

theorem statin_unknown_counterexample:
  "(case process_cycle_bc no_fmt ''2005-2006'' (Some dir_rx_ex) of
      Inl e \<Rightarrow> [] | Inr df \<Rightarrow> cells df [''SEQN'', ''statin_use''])
     = [[Num 1, Num 1], [Num 2, Num 0]]
   \<and> (case process_cycle_bc no_fmt ''2005-2006'' (Some dir_norx_ex) of
      Inl e \<Rightarrow> [] | Inr df \<Rightarrow> cells df [''SEQN'', ''statin_use''])
     = [[Num 1, Num 0], [Num 2, Num 0]]
   \<and> (case process_cycle_pd no_fmt ''2005-2006'' (Some dir_rx_ex) of
      Inl e \<Rightarrow> []
    | Inr df \<Rightarrow>
        (case combine_cycles_pd [df] of
           None \<Rightarrow> []
         | Some combined \<Rightarrow>
             (case create_rir_cohort_statin_step combined of
                Inl e \<Rightarrow> [] | Inr df' \<Rightarrow> cells df' [''SEQN'', ''statin_user''])))
     = [[Num 1, Num 1], [Num 2, Num 0]]
   \<and> (case process_cycle_pd no_fmt ''2005-2006'' (Some dir_norx_ex) of
      Inl e \<Rightarrow> []
    | Inr df \<Rightarrow>
        (case combine_cycles_pd [df] of
           None \<Rightarrow> []
         | Some combined \<Rightarrow>
             (case create_rir_cohort_statin_step combined of
                Inl e \<Rightarrow> [] | Inr df' \<Rightarrow> cells df' [''SEQN'', ''statin_user''])))
     = [[Num 1, Num 0], [Num 2, Num 0]]"
  by code_simp

text \<open>
  C2, as the scripts have it. Without a prescription file every participant of the
  cycle gets the status 0. With one, a participant who has no row in it gets the status
  0: in the cohort builder always, in the processing script when the file loads as a table
  that is not empty and has the participant column. The statin step of the processing
  script's cohort filter keeps the columns and keeps exactly the rows whose status is not
  missing, in their order (last conjunct); so it keeps every row of a participant whose
  status is 0.
\<close>

theorem statin_default_zero:
  "(find_file_bc (map fst d) ''RXQ_RX'' = None \<longrightarrow>
      process_cycle_statin_bc fmt d df = Inr (assign df ''statin_use'' (\<lambda>r. Num 0)))
   \<and> (find_file_bc (map fst d) ''RXQ_RX'' = Some f \<and> process_cycle_statin_bc fmt d df = Inr out \<and>
       s \<notin> set (seqns (load_xpt d f)) \<longrightarrow>
      seqn_rows s (rows out) = map (\<lambda>r. r(''statin_use'' := Num 0)) (seqn_rows s (rows df)))
   \<and> (find_file_pd (map fst d) ''RXQ_RX'' = None \<longrightarrow>
      process_cycle_statin_pd fmt d df = Inr (assign df ''statin_user'' (\<lambda>r. Num 0)))
   \<and> (find_file_pd (map fst d) ''RXQ_RX'' = Some f' \<and> \<not> is_empty (load_xpt d f') \<and>
       ''SEQN'' \<in> set (columns (load_xpt d f')) \<and> process_cycle_statin_pd fmt d df = Inr out' \<and>
       s \<notin> set (seqns (upper_columns (load_xpt d f'))) \<longrightarrow>
      length (seqn_rows s (rows out')) = length (seqn_rows s (rows df)) \<and>
      (\<forall>y \<in> set (seqn_rows s (rows out')). y ''statin_user'' = Num 0))
   \<and> (create_rir_cohort_statin_step c = Inr c' \<and>
       (\<forall>y \<in> set (seqn_rows s (rows c)). y ''statin_user'' = Num 0) \<longrightarrow>
      seqn_rows s (rows c') = seqn_rows s (rows c))
   \<and> (''statin_user'' \<in> set (columns c) \<longrightarrow>
      create_rir_cohort_statin_step c =
        Inr \<lparr>columns = columns c, rows = filter (\<lambda>r. r ''statin_user'' \<noteq> NaN) (rows c)\<rparr>)"
proof (intro conjI impI)
  assume "find_file_bc (map fst d) ''RXQ_RX'' = None"
  then show "process_cycle_statin_bc fmt d df = Inr (assign df ''statin_use'' (\<lambda>r. Num 0))"
    by (rule process_cycle_statin_bc_no_file)
next
  assume "find_file_bc (map fst d) ''RXQ_RX'' = Some f \<and> process_cycle_statin_bc fmt d df = Inr out \<and>
       s \<notin> set (seqns (load_xpt d f))"
  then show "seqn_rows s (rows out) = map (\<lambda>r. r(''statin_use'' := Num 0)) (seqn_rows s (rows df))"
    using process_cycle_statin_bc_absent by blast
next
  assume "find_file_pd (map fst d) ''RXQ_RX'' = None"
  then show "process_cycle_statin_pd fmt d df = Inr (assign df ''statin_user'' (\<lambda>r. Num 0))"
    by (rule process_cycle_statin_pd_no_file)
next
  assume a: "find_file_pd (map fst d) ''RXQ_RX'' = Some f' \<and> \<not> is_empty (load_xpt d f') \<and>
       ''SEQN'' \<in> set (columns (load_xpt d f')) \<and> process_cycle_statin_pd fmt d df = Inr out' \<and>
       s \<notin> set (seqns (upper_columns (load_xpt d f')))"
  show "length (seqn_rows s (rows out')) = length (seqn_rows s (rows df))"
    using a process_cycle_statin_pd_absent(1) by blast
  show "\<forall>y \<in> set (seqn_rows s (rows out')). y ''statin_user'' = Num 0"
    using a process_cycle_statin_pd_absent(2) by blast
next
  assume "create_rir_cohort_statin_step c = Inr c' \<and>
       (\<forall>y \<in> set (seqn_rows s (rows c)). y ''statin_user'' = Num 0)"
  then show "seqn_rows s (rows c') = seqn_rows s (rows c)"
    using create_rir_cohort_statin_step_keeps by blast
next
  assume "''statin_user'' \<in> set (columns c)"
  then show "create_rir_cohort_statin_step c =
        Inr \<lparr>columns = columns c, rows = filter (\<lambda>r. r ''statin_user'' \<noteq> NaN) (rows c)\<rparr>"
    by (simp add: create_rir_cohort_statin_step_def isna_def)
qed

theorem statin_default_zero_witness:
  "find_file_bc (map fst dir_norx_ex) ''RXQ_RX'' = None
   \<and> process_cycle_statin_bc no_fmt dir_norx_ex demo_ex = Inr (assign demo_ex ''statin_use'' (\<lambda>r. Num 0))
   \<and> find_file_bc (map fst dir_rx_ex) ''RXQ_RX'' = Some ''RXQ_RX_D.xpt''
   \<and> \<not> isl (process_cycle_statin_bc no_fmt dir_rx_ex demo_ex)
   \<and> Num 2 \<notin> set (seqns (load_xpt dir_rx_ex ''RXQ_RX_D.xpt''))
   \<and> seqn_rows (Num 2) (rows (projr (process_cycle_statin_bc no_fmt dir_rx_ex demo_ex)))
       = map (\<lambda>r. r(''statin_use'' := Num 0)) (seqn_rows (Num 2) (rows demo_ex))
   \<and> find_file_pd (map fst dir_norx_ex) ''RXQ_RX'' = None
   \<and> process_cycle_statin_pd no_fmt dir_norx_ex demo_ex = Inr (assign demo_ex ''statin_user'' (\<lambda>r. Num 0))
   \<and> find_file_pd (map fst dir_rx_ex) ''RXQ_RX'' = Some ''RXQ_RX_D.xpt''
   \<and> \<not> is_empty (load_xpt dir_rx_ex ''RXQ_RX_D.xpt'')
   \<and> ''SEQN'' \<in> set (columns (load_xpt dir_rx_ex ''RXQ_RX_D.xpt''))
   \<and> \<not> isl (process_cycle_statin_pd no_fmt dir_rx_ex demo_ex)
   \<and> Num 2 \<notin> set (seqns (upper_columns (load_xpt dir_rx_ex ''RXQ_RX_D.xpt'')))
   \<and> length (seqn_rows (Num 2) (rows (projr (process_cycle_statin_pd no_fmt dir_rx_ex demo_ex)))) = 1
   \<and> list_all (\<lambda>y. y ''statin_user'' = Num 0)
        (seqn_rows (Num 2) (rows (projr (process_cycle_statin_pd no_fmt dir_rx_ex demo_ex))))
   \<and> \<not> isl (create_rir_cohort_statin_step (projr (process_cycle_statin_pd no_fmt dir_rx_ex demo_ex)))
   \<and> seqn_rows (Num 2) (rows (projr (create_rir_cohort_statin_step
         (projr (process_cycle_statin_pd no_fmt dir_rx_ex demo_ex)))))
       = seqn_rows (Num 2) (rows (projr (process_cycle_statin_pd no_fmt dir_rx_ex demo_ex)))
   \<and> ''statin_user'' \<in> set (columns statin_mixed_ex)
   \<and> cells statin_mixed_ex [''SEQN'', ''statin_user'']
       = [[Num 1, NaN], [Num 2, Num 1], [Num 3, Num 0]]
   \<and> cells (projr (create_rir_cohort_statin_step statin_mixed_ex)) [''SEQN'', ''statin_user'']
       = [[Num 2, Num 1], [Num 3, Num 0]]"
proof -
  have g1: "''statin_user'' \<in> set (columns statin_mixed_ex)" by code_simp
  have g2: "cells statin_mixed_ex [''SEQN'', ''statin_user'']
       = [[Num 1, NaN], [Num 2, Num 1], [Num 3, Num 0]]" by code_simp
  have g3: "cells \<lparr>columns = columns statin_mixed_ex,
                   rows = filter (\<lambda>r. r ''statin_user'' \<noteq> NaN) (rows statin_mixed_ex)\<rparr>
              [''SEQN'', ''statin_user'']
       = [[Num 2, Num 1], [Num 3, Num 0]]" by code_simp
  have g4: "create_rir_cohort_statin_step statin_mixed_ex =
        Inr \<lparr>columns = columns statin_mixed_ex,
             rows = filter (\<lambda>r. r ''statin_user'' \<noteq> NaN) (rows statin_mixed_ex)\<rparr>"
    using statin_default_zero [where c = statin_mixed_ex] g1 by blast
  have c7: "cells (projr (create_rir_cohort_statin_step statin_mixed_ex)) [''SEQN'', ''statin_user'']
       = [[Num 2, Num 1], [Num 3, Num 0]]"
    by (simp only: g4 sum.sel g3)
  have f1: "find_file_bc (map fst dir_norx_ex) ''RXQ_RX'' = None" by code_simp
  have f2: "find_file_bc (map fst dir_rx_ex) ''RXQ_RX'' = Some ''RXQ_RX_D.xpt''" by code_simp
  have f3: "find_file_pd (map fst dir_norx_ex) ''RXQ_RX'' = None" by code_simp
  have f4: "find_file_pd (map fst dir_rx_ex) ''RXQ_RX'' = Some ''RXQ_RX_D.xpt''" by code_simp
  have r1: "\<not> isl (process_cycle_statin_bc no_fmt dir_rx_ex demo_ex)" by code_simp
  have r2: "\<not> isl (process_cycle_statin_pd no_fmt dir_rx_ex demo_ex)" by code_simp
  have r3: "\<not> isl (create_rir_cohort_statin_step (projr (process_cycle_statin_pd no_fmt dir_rx_ex demo_ex)))"
    by code_simp
  have a1: "Num 2 \<notin> set (seqns (load_xpt dir_rx_ex ''RXQ_RX_D.xpt''))" by code_simp
  have a2: "Num 2 \<notin> set (seqns (upper_columns (load_xpt dir_rx_ex ''RXQ_RX_D.xpt'')))" by code_simp
  have e1: "\<not> is_empty (load_xpt dir_rx_ex ''RXQ_RX_D.xpt'')" by code_simp
  have e2: "''SEQN'' \<in> set (columns (load_xpt dir_rx_ex ''RXQ_RX_D.xpt''))" by code_simp
  have n: "length (seqn_rows (Num 2) (rows demo_ex)) = 1" by code_simp
  note t1 = statin_default_zero [where d = dir_norx_ex and fmt = no_fmt and df = demo_ex]
  note t2 = statin_default_zero
    [where d = dir_rx_ex and fmt = no_fmt and df = demo_ex and s = "Num 2"
       and f = "''RXQ_RX_D.xpt''" and f' = "''RXQ_RX_D.xpt''"
       and out = "projr (process_cycle_statin_bc no_fmt dir_rx_ex demo_ex)"
       and out' = "projr (process_cycle_statin_pd no_fmt dir_rx_ex demo_ex)"
       and c = "projr (process_cycle_statin_pd no_fmt dir_rx_ex demo_ex)"
       and c' = "projr (create_rir_cohort_statin_step
                   (projr (process_cycle_statin_pd no_fmt dir_rx_ex demo_ex)))"]
  have c1: "process_cycle_statin_bc no_fmt dir_norx_ex demo_ex = Inr (assign demo_ex ''statin_use'' (\<lambda>r. Num 0))"
    using t1 f1 by blast
  have c2: "seqn_rows (Num 2) (rows (projr (process_cycle_statin_bc no_fmt dir_rx_ex demo_ex)))
       = map (\<lambda>r. r(''statin_use'' := Num 0)) (seqn_rows (Num 2) (rows demo_ex))"
    using t2 f2 r1 a1 by simp
  have c3: "process_cycle_statin_pd no_fmt dir_norx_ex demo_ex = Inr (assign demo_ex ''statin_user'' (\<lambda>r. Num 0))"
    using t1 f3 by blast
  have c4: "length (seqn_rows (Num 2) (rows (projr (process_cycle_statin_pd no_fmt dir_rx_ex demo_ex)))) = 1"
    using t2 f4 e1 e2 r2 a2 n by simp
  have c5: "\<forall>y \<in> set (seqn_rows (Num 2) (rows (projr (process_cycle_statin_pd no_fmt dir_rx_ex demo_ex)))).
              y ''statin_user'' = Num 0"
    using t2 f4 e1 e2 r2 a2 by simp
  have c6: "seqn_rows (Num 2) (rows (projr (create_rir_cohort_statin_step
         (projr (process_cycle_statin_pd no_fmt dir_rx_ex demo_ex)))))
       = seqn_rows (Num 2) (rows (projr (process_cycle_statin_pd no_fmt dir_rx_ex demo_ex)))"
    using t2 r3 c5 by simp
  have c5': "list_all (\<lambda>y. y ''statin_user'' = Num 0)
        (seqn_rows (Num 2) (rows (projr (process_cycle_statin_pd no_fmt dir_rx_ex demo_ex))))"
    using c5 by (simp add: list_all_iff)
  show ?thesis
    using f1 c1 f2 r1 a1 c2 f3 c3 f4 e1 e2 r2 a2 c4 c5' r3 c6 g1 g2 c7 by blast
qed

subsection \<open>Inflammation marker\<close>

lemma harmonize_cycle_rescales:
  assumes "''LBXCRP'' \<in> set (columns df)" and "''LBXHSCRP'' \<notin> set (columns df)"
  shows "build_analytic_cohort_hscrp (harmonize_cycle df) = map (\<lambda>r. times_cell (r ''LBXCRP'') 10) (rows df)"
  using assms
  by (simp add: build_analytic_cohort_hscrp_def harmonize_cycle_def Let_def assign_def df_get_def)

lemma harmonize_cycle_keeps_hscrp:
  assumes "''LBXHSCRP'' \<in> set (columns df)"
  shows "build_analytic_cohort_hscrp (harmonize_cycle df) = map (\<lambda>r. r ''LBXHSCRP'') (rows df)"
  using assms
  by (simp add: build_analytic_cohort_hscrp_def harmonize_cycle_def Let_def assign_def df_get_def)

lemma build_analytic_cohort_hscrp_concat:
  "build_analytic_cohort_hscrp (concat_frames fs) = concat (map build_analytic_cohort_hscrp fs)"
proof -
  have one: "map (df_get (concat_frames fs) ''LBXHSCRP'' NaN) (map (restrict_row (columns f)) (rows f))
             = build_analytic_cohort_hscrp f" if "f \<in> set fs" for f
    using that
    by (auto simp: build_analytic_cohort_hscrp_def df_get_def restrict_row_def concat_frames_def set_dedup)
  have "build_analytic_cohort_hscrp (concat_frames fs)
        = concat (map (\<lambda>f. map (df_get (concat_frames fs) ''LBXHSCRP'' NaN)
                               (map (restrict_row (columns f)) (rows f))) fs)"
    by (simp add: build_analytic_cohort_hscrp_def concat_frames_def map_concat comp_def)
  also have "\<dots> = concat (map build_analytic_cohort_hscrp fs)"
    using one by (simp cong: map_cong)
  finally show ?thesis .
qed

lemma harmonize_variables_hscrp_old_only:
  assumes "''LBXCRP'' \<in> set (columns df)" and "r \<in> set (rows df)"
    and "''LBXHSCRP'' \<notin> set (columns df) \<or> r ''LBXHSCRP'' = NaN"
  shows "fillna (df_get df ''LBXHSCRP'' NaN r) (df_get df ''LBXCRP'' NaN r) = r ''LBXCRP''"
  using assms by (auto simp: fillna_def isna_def df_get_def)

text \<open>
  C1. A record whose only inflammation-marker source is the older variable \<^verbatim>\<open>LBXCRP\<close>
  (mg/dL) is to get ten times the raw value, rescaled per cycle before the cycles are
  concatenated. The cohort builder does so (lemmas above). The processing script never
  rescales: on a 2005-2006 directory with a demographics file and a CRP file holding
  0.3 mg/dL for participant 1, its harmonized value is 0.3, where the cohort builder
  gives 3.
\<close>

theorem hscrp_not_rescaled:
  "(case process_cycle_pd no_fmt ''2005-2006'' (Some dir_crp_ex) of
      Inl e \<Rightarrow> []
    | Inr df \<Rightarrow>
        (case combine_cycles_pd [df] of
           None \<Rightarrow> []
         | Some combined \<Rightarrow> harmonize_variables_hscrp combined))
     = [Num (3 / 10), NaN]
   \<and> (case process_cycle_bc no_fmt ''2005-2006'' (Some dir_crp_ex) of
      Inl e \<Rightarrow> []
    | Inr df \<Rightarrow>
        (case combine_cycles_bc [df] of
           None \<Rightarrow> []
         | Some combined \<Rightarrow> build_analytic_cohort_hscrp combined))
     = [Num 3, NaN]"
  by code_simp

subsection \<open>Race and ethnicity\<close>

lemma build_analytic_cohort_race_eth_newer:
  "''RIDRETH3'' \<in> set (columns df) \<Longrightarrow>
   build_analytic_cohort_race_eth df = map (\<lambda>r. r ''RIDRETH3'') (rows df)"
  by (simp add: build_analytic_cohort_race_eth_def)

lemma build_analytic_cohort_race_eth_older:
  "''RIDRETH3'' \<notin> set (columns df) \<Longrightarrow> ''RIDRETH1'' \<in> set (columns df) \<Longrightarrow>
   build_analytic_cohort_race_eth df = map (\<lambda>r. r ''RIDRETH1'') (rows df)"
  by (simp add: build_analytic_cohort_race_eth_def df_get_def)

text \<open>
  C5. The harmonized race and ethnicity is to be the newer coding \<^verbatim>\<open>RIDRETH3\<close> where
  the record has it and the older \<^verbatim>\<open>RIDRETH1\<close> where it has not. The cohort builder
  decides by the presence of the column in the concatenated table, not by record: as soon
  as one cycle brings \<^verbatim>\<open>RIDRETH3\<close>, every record of an older cycle gets a missing
  value although its \<^verbatim>\<open>RIDRETH1\<close> is populated. The processing script reads
  \<^verbatim>\<open>RIDRETH1\<close> only, also for a record whose \<^verbatim>\<open>RIDRETH3\<close> is populated.
\<close>

theorem race_eth_old_cycles_missing:
  "(case combine_cycles_bc [cycle_2005_ex, cycle_2015_ex] of
      None \<Rightarrow> []
    | Some combined \<Rightarrow> cells combined [''SEQN'', ''RIDRETH1'', ''RIDRETH3''])
     = [[Num 1, Num 3, NaN], [Num 2, Num 5, Num 6]]
   \<and> (case combine_cycles_bc [cycle_2005_ex, cycle_2015_ex] of
      None \<Rightarrow> []
    | Some combined \<Rightarrow> build_analytic_cohort_race_eth combined)
     = [NaN, Num 6]
   \<and> (case combine_cycles_pd [cycle_2005_ex, cycle_2015_ex] of
      None \<Rightarrow> []
    | Some combined \<Rightarrow> harmonize_variables_race_eth combined)
     = [Num 3, Num 5]"
  by code_simp

subsection \<open>File resolver\<close>

lemma glob_match_Star_Nil: "glob_match [Star] s"
  by (induction s) auto

lemma glob_match_Lits:
  "glob_match (map Lit tok @ p) s \<longleftrightarrow> (\<exists>rest. s = tok @ rest \<and> glob_match p rest)"
proof (induction tok arbitrary: s)
  case Nil
  then show ?case by simp
next
  case (Cons c tok)
  then show ?case by (cases s) auto
qed

lemma glob_match_Star:
  "glob_match (Star # p) s \<longleftrightarrow> (\<exists>a b. s = a @ b \<and> glob_match p b)"
proof (induction s)
  case Nil
  then show ?case by simp
next
  case (Cons c s)
  show ?case
  proof
    assume "glob_match (Star # p) (c # s)"
    then consider "glob_match p (c # s)" | "glob_match (Star # p) s" by auto
    then show "\<exists>a b. c # s = a @ b \<and> glob_match p b"
    proof cases
      case 1
      then have "c # s = [] @ (c # s) \<and> glob_match p (c # s)" by simp
      then show ?thesis by blast
    next
      case 2
      then obtain a b where "s = a @ b" "glob_match p b" using Cons.IH by blast
      then have "c # s = (c # a) @ b \<and> glob_match p b" by simp
      then show ?thesis by blast
    qed
  next
    assume "\<exists>a b. c # s = a @ b \<and> glob_match p b"
    then obtain a b where ab: "c # s = a @ b" "glob_match p b" by blast
    show "glob_match (Star # p) (c # s)"
    proof (cases a)
      case Nil
      with ab have "glob_match p (c # s)" by simp
      then show ?thesis by simp
    next
      case (Cons c' a')
      with ab have "s = a' @ b" by simp
      with ab(2) Cons.IH have "glob_match (Star # p) s" by blast
      then show ?thesis by simp
    qed
  qed
qed

lemma glob_parse_plain: "plain tok \<Longrightarrow> glob_parse tok = map Lit tok"
  unfolding plain_def glob_parse_def by (induction tok) auto

lemma glob_parse_append: "glob_parse (a @ b) = glob_parse a @ glob_parse b"
  by (simp add: glob_parse_def)

lemma glob_match_contains:
  assumes "plain tok"
  shows "glob_match (glob_parse (''*'' @ tok @ ''*'')) name \<longleftrightarrow> contains tok name"
proof -
  have star: "glob_parse ''*'' = [Star]"
    by (simp add: glob_parse_def)
  have "glob_parse (''*'' @ tok @ ''*'') = glob_parse ''*'' @ glob_parse tok @ glob_parse ''*''"
    by (simp only: glob_parse_append)
  then have "glob_parse (''*'' @ tok @ ''*'') = Star # map Lit tok @ [Star]"
    by (simp only: star glob_parse_plain [OF assms] append_Cons append_Nil)
  then show ?thesis
    by (auto simp: glob_match_Star glob_match_Lits glob_match_Star_Nil contains_def sublist_def)
qed

lemma find_as_filter: "find P xs = (case filter P xs of [] \<Rightarrow> None | x # ys \<Rightarrow> Some x)"
  by (induction xs) auto

lemma find_file_bc_plain:
  assumes "plain pattern"
  shows "find_file_bc entries pattern = find (contains pattern) entries"
proof -
  have "glob entries (''*'' @ pattern @ ''*'') = filter (contains pattern) entries"
    unfolding glob_def using glob_match_contains [OF assms] by (intro filter_cong) auto
  then show ?thesis
    by (simp add: find_file_bc_def find_as_filter)
qed

lemma find_file_pd_None:
  "find_file_pd entries pattern = None \<longleftrightarrow>
     glob entries (''*'' @ pattern @ ''*.XPT'') = [] \<and> glob entries (''*'' @ pattern @ ''*.xpt'') = []"
  by (auto simp: find_file_pd_def split: list.splits)

text \<open>
  C7. The resolver is to match the token case-insensitively. Both scripts hand the token
  to \<^verbatim>\<open>Path.glob\<close> as it is, which on a POSIX system compares case-sensitively; the
  processing script tries the two casings of the extension and no other variant. A
  directory whose one entry is \<^verbatim>\<open>demo_d.xpt\<close> has an entry that contains the token
  \<^verbatim>\<open>DEMO\<close> up to case, and both resolvers return nothing. With the token in the
  entry's own casing both find it, under either casing of the extension.
\<close>

theorem find_file_case_sensitive:
  "find_file_bc [''demo_d.xpt''] ''DEMO'' = None \<and> find_file_pd [''demo_d.xpt''] ''DEMO'' = None
   \<and> contains (lower ''DEMO'') (lower ''demo_d.xpt'')
   \<and> find_file_bc [''DEMO_D.xpt''] ''DEMO'' = Some ''DEMO_D.xpt''
   \<and> find_file_pd [''DEMO_D.xpt''] ''DEMO'' = Some ''DEMO_D.xpt''
   \<and> find_file_pd [''DEMO_D.XPT''] ''DEMO'' = Some ''DEMO_D.XPT''"
  by code_simp

subsection \<open>Statin classifier\<close>

lemma identify_statin_users_pd_flags:
  assumes "\<not> is_empty rx" and "''SEQN'' \<in> set (columns rx)"
  shows "rows (identify_statin_users_pd fmt rx) =
     map (\<lambda>k. (\<lambda>c. NaN)(''SEQN'' := k, ''statin_user'' := astype_float
            (list_ex (\<lambda>r. r ''SEQN'' = k \<and>
                           (name_match_pd fmt (upper_columns rx) r \<or>
                            class_match_pd fmt (upper_columns rx) r))
               (rows (upper_columns rx)))))
       (dedup (seqns (upper_columns rx)))"
proof -
  have "k \<in> set (map (\<lambda>r. r ''SEQN'') (filter P1 rs) @ map (\<lambda>r. r ''SEQN'') (filter P2 rs))
        \<longleftrightarrow> list_ex (\<lambda>r. r ''SEQN'' = k \<and> (P1 r \<or> P2 r)) rs"
    for k :: cell and P1 P2 and rs :: "row list"
    by (auto simp: list_ex_iff)
  then show ?thesis
    using assms by (simp add: identify_statin_users_pd_def Let_def seqns_def)
qed

lemma identify_statin_users_bc_flags:
  assumes "\<not> is_empty rx" and "''RXDDRUG'' \<in> set (columns rx)" and "''SEQN'' \<in> set (columns rx)"
  shows "identify_statin_users_bc fmt rx =
     Inr (map (\<lambda>k. (k, astype_float
            (list_ex (\<lambda>r. r ''SEQN'' = k \<and>
                           list_ex (\<lambda>p. contains p (lower (py_str fmt (r ''RXDDRUG'')))) STATIN_PATTERNS)
               (rows rx))))
       (dedup (filter (\<lambda>k. \<not> isna k) (seqns rx))))"
proof -
  have "list_ex P (filter Q rs) \<longleftrightarrow> list_ex (\<lambda>r. Q r \<and> P r) rs" for P Q and rs :: "row list"
    by (auto simp: list_ex_iff)
  then show ?thesis
    using assms by (simp add: identify_statin_users_bc_def Let_def seqns_def)
qed

text \<open>
  C4. A participant is to be flagged when one of their rows matches a statin by name or
  by therapeutic class code. The processing script does both (first lemma above). The
  cohort builder defines its class codes and never reads a class column (second lemma
  above): of two participants whose only row carries a statin class code, \<open>358\<close> of the
  processing script's list and \<open>CV350\<close> of the cohort builder's, it flags neither. The
  example of the specification, a row \<^verbatim>\<open>lisinopril\<close> and a row
  \<^verbatim>\<open>ATORVASTATIN CALCIUM 10MG\<close>, is flagged by both.
\<close>

theorem statin_class_code_ignored:
  "identify_statin_users_bc no_fmt rx_class_ex = Inr [(Num 1, Num 0), (Num 2, Num 0)]
   \<and> cells (identify_statin_users_pd no_fmt rx_class_ex) [''SEQN'', ''statin_user'']
       = [[Num 1, Num 1], [Num 2, Num 0]]
   \<and> identify_statin_users_bc no_fmt rx_ex = Inr [(Num 1, Num 1)]
   \<and> cells (identify_statin_users_pd no_fmt rx_ex) [''SEQN'', ''statin_user''] = [[Num 1, Num 1]]"
  by code_simp

subsection \<open>The two implementations\<close>

text \<open>
  C9. The two scripts disagree. (a) For a cycle whose prescription file is there and loads
  as an empty table, the cohort builder gives every participant the status 0, while the
  processing script adds no status column, so that after concatenation with another cycle
  the statin step of its filter drops the cycle's participants 1 and 2. (b) The brand name
  \<^verbatim>\<open>LIPITOR\<close> is in the processing script's name list only, and a class code is
  read by the processing script only. (c) For triglycerides of 450 and a directly measured
  LDL of 130 the processing script's calculator returns 130, a fallback the cohort
  builder's calculator does not have.
\<close>

theorem implementations_disagree:
  "(case process_cycle_bc no_fmt ''2005-2006'' (Some dir_badrx_ex) of
      Inl e \<Rightarrow> [] | Inr df \<Rightarrow> cells df [''SEQN'', ''statin_use''])
     = [[Num 1, Num 0], [Num 2, Num 0]]
   \<and> (case process_cycle_pd no_fmt ''2005-2006'' (Some dir_badrx_ex) of
      Inl e \<Rightarrow> []
    | Inr df1 \<Rightarrow>
        (case process_cycle_pd no_fmt ''2015-2016'' (Some dir_rx2_ex) of
           Inl e \<Rightarrow> []
         | Inr df2 \<Rightarrow>
             (case combine_cycles_pd [df1, df2] of
                None \<Rightarrow> []
              | Some combined \<Rightarrow> cells combined [''SEQN'', ''statin_user''])))
     = [[Num 1, NaN], [Num 2, NaN], [Num 3, Num 1], [Num 4, Num 0]]
   \<and> (case process_cycle_pd no_fmt ''2005-2006'' (Some dir_badrx_ex) of
      Inl e \<Rightarrow> []
    | Inr df1 \<Rightarrow>
        (case process_cycle_pd no_fmt ''2015-2016'' (Some dir_rx2_ex) of
           Inl e \<Rightarrow> []
         | Inr df2 \<Rightarrow>
             (case combine_cycles_pd [df1, df2] of
                None \<Rightarrow> []
              | Some combined \<Rightarrow>
                  (case create_rir_cohort_statin_step combined of
                     Inl e \<Rightarrow> []
                   | Inr df' \<Rightarrow> cells df' [''SEQN'', ''statin_user'']))))
     = [[Num 3, Num 1], [Num 4, Num 0]]
   \<and> identify_statin_users_bc no_fmt rx_brand_ex = Inr [(Num 1, Num 0)]
   \<and> cells (identify_statin_users_pd no_fmt rx_brand_ex) [''SEQN'', ''statin_user''] = [[Num 1, Num 1]]
   \<and> identify_statin_users_bc no_fmt rx_class_ex = Inr [(Num 1, Num 0), (Num 2, Num 0)]
   \<and> cells (identify_statin_users_pd no_fmt rx_class_ex) [''SEQN'', ''statin_user'']
       = [[Num 1, Num 1], [Num 2, Num 0]]
   \<and> compute_ldl_friedewald (Num 200) (Num 50) (Num 450) = NaN
   \<and> calculate_ldl (Num 200) (Num 50) (Num 450) (Some (Num 130)) = Num 130
   \<and> calculate_ldl (Num 200) (Num 50) (Num 450) None = NaN"
  by code_simp

end
